theory Spec2Isabelle
  imports Main "HOL-Library.Sublist"
begin

section \<open>JavaScript string primitives used by the pipeline\<close>

text \<open>
  Strings are lists of code units. The white-space class of \<open>\s\<close> and of \<open>trim\<close>
  is tab, line feed, vertical tab, form feed, carriage return, space and the no-break
  space.
\<close>

definition isSpace :: "char \<Rightarrow> bool" where
  "isSpace c = (c = CHR 0x09 \<or> c = CHR 0x0A \<or> c = CHR 0x0B \<or> c = CHR 0x0C
                \<or> c = CHR 0x0D \<or> c = CHR '' '' \<or> c = CHR 0xA0)"

definition trim :: "string \<Rightarrow> string" where
  "trim s = rev (dropWhile isSpace (rev (dropWhile isSpace s)))"

text \<open>\<open>s.includes(p)\<close>: some position of \<open>s\<close> starts an occurrence of \<open>p\<close>.\<close>

fun str_includes :: "string \<Rightarrow> string \<Rightarrow> bool" where
  "str_includes [] p = (p = [])"
| "str_includes (c # cs) p = (prefix p (c # cs) \<or> str_includes cs p)"

definition startsWith :: "string \<Rightarrow> string \<Rightarrow> bool" where
  "startsWith s p = prefix p s"

definition endsWith :: "string \<Rightarrow> string \<Rightarrow> bool" where
  "endsWith s p = suffix p s"

text \<open>\<open>s.replace(/\s+/g, ' ')\<close>: every maximal white-space run becomes one space.\<close>

function collapseWs :: "string \<Rightarrow> string" where
  "collapseWs [] = []"
| "collapseWs (c # cs) =
     (if isSpace c then CHR '' '' # collapseWs (dropWhile isSpace cs)
      else c # collapseWs cs)"
  by pat_completeness auto
termination
  by (relation "measure length") (auto simp: length_dropWhile_le less_Suc_eq_le)

text \<open>
  \<open>s.replace(/\n\s*\n/g, '\n')\<close>: a match starts at a line feed and, \<open>\s*\<close> being
  greedy with backtracking, runs to the last line feed of the white-space run that
  follows; scanning resumes behind the match.
\<close>

definition afterLastNewline :: "string \<Rightarrow> string" where
  "afterLastNewline run = rev (takeWhile (\<lambda>c. c \<noteq> CHR 0x0A) (rev run))"

function replaceBlankLines :: "string \<Rightarrow> string" where
  "replaceBlankLines [] = []"
| "replaceBlankLines (c # cs) =
     c # replaceBlankLines
           (if c = CHR 0x0A \<and> CHR 0x0A \<in> set (takeWhile isSpace cs)
            then afterLastNewline (takeWhile isSpace cs) @ dropWhile isSpace cs
            else cs)"
  by pat_completeness auto
termination
proof (relation "measure length")
  show "wf (measure length)" by simp
next
  fix c :: char and cs :: string
  have "length (afterLastNewline (takeWhile isSpace cs)) \<le> length (takeWhile isSpace cs)"
    unfolding afterLastNewline_def
    by (metis length_rev length_takeWhile_le)
  moreover have "length (takeWhile isSpace cs) + length (dropWhile isSpace cs) = length cs"
    by (metis length_append takeWhile_dropWhile_id)
  ultimately show "((if c = CHR 0x0A \<and> CHR 0x0A \<in> set (takeWhile isSpace cs)
            then afterLastNewline (takeWhile isSpace cs) @ dropWhile isSpace cs
            else cs), c # cs) \<in> measure length"
    by auto
qed

section \<open>Card types and card records (types.ts)\<close>

text \<open>
  \<open>CardType\<close> is a string enum; at run time a card's \<open>type\<close> is whatever string the
  model backend produced, so the enum members are string constants.
\<close>

type_synonym CardType = string

definition OneWay :: CardType where "OneWay = ''oneway''"
definition Bidirectional :: CardType where "Bidirectional = ''bidirectional''"
definition MultiLine :: CardType where "MultiLine = ''multiline''"
definition MultiLineBidirectional :: CardType where
  "MultiLineBidirectional = ''multiline-bidirectional''"
definition Cloze :: CardType where "Cloze = ''cloze''"

text \<open>\<open>Object.values(CardType)\<close>.\<close>

definition CardType_values :: "CardType list" where
  "CardType_values = [OneWay, Bidirectional, MultiLine, MultiLineBidirectional, Cloze]"

lemmas CardType_defs =
  OneWay_def Bidirectional_def MultiLine_def MultiLineBidirectional_def Cloze_def

record RawFlashcard =
  front :: string
  back_side :: string
  type :: CardType
  tags :: "string list option"

record FormattedFlashcard =
  content :: string
  ftags :: "string list"

section \<open>SpacedRepetitionFormatter (spaced-repetition-formatter.ts)\<close>

definition cleanText :: "string \<Rightarrow> string" where
  "cleanText text = replaceBlankLines (collapseWs (trim text))"

definition formatOneWayCard :: "RawFlashcard \<Rightarrow> string" where
  "formatOneWayCard crd = cleanText (front crd) @ ''::'' @ cleanText (back_side crd)"

definition formatBidirectionalCard :: "RawFlashcard \<Rightarrow> string" where
  "formatBidirectionalCard crd = cleanText (front crd) @ '':::'' @ cleanText (back_side crd)"

definition formatMultiLineCard :: "RawFlashcard \<Rightarrow> string" where
  "formatMultiLineCard crd =
     cleanText (front crd) @ [CHR ''?'', CHR 0x0A] @ cleanText (back_side crd)"

definition formatMultiLineBidirectionalCard :: "RawFlashcard \<Rightarrow> string" where
  "formatMultiLineBidirectionalCard crd =
     cleanText (front crd) @ [CHR ''?'', CHR ''?'', CHR ''?'', CHR 0x0A] @ cleanText (back_side crd)"

definition formatClozeCard :: "RawFlashcard \<Rightarrow> string" where
  "formatClozeCard crd = cleanText (front crd)"

text \<open>The \<open>default\<close> branch throws; the thrown message is the \<open>Inl\<close> value.\<close>

definition formatCard :: "RawFlashcard \<Rightarrow> string + FormattedFlashcard" where
  "formatCard crd =
     (let done = (\<lambda>t. Inr \<lparr>content = t, ftags = (case tags crd of None \<Rightarrow> [] | Some ts \<Rightarrow> ts)\<rparr>)
      in if type crd = OneWay then done (formatOneWayCard crd)
         else if type crd = Bidirectional then done (formatBidirectionalCard crd)
         else if type crd = MultiLine then done (formatMultiLineCard crd)
         else if type crd = MultiLineBidirectional then done (formatMultiLineBidirectionalCard crd)
         else if type crd = Cloze then done (formatClozeCard crd)
         else Inl (''Unsupported card type: '' @ type crd))"

definition getSeparator :: "CardType \<Rightarrow> string + string" where
  "getSeparator cardType =
     (if cardType = OneWay then Inr ''::''
      else if cardType = Bidirectional then Inr '':::''
      else if cardType = MultiLine then Inr ''?''
      else if cardType = MultiLineBidirectional then Inr ''???''
      else if cardType = Cloze then Inr ''==''
      else Inl (''Unknown card type: '' @ cardType))"

text \<open>
  \<open>content.match(/==[^=]+==/)\<close>: at some position stand two equals signs, a non-empty
  run of other characters and two equals signs again. The greedy class takes the whole
  run of non-equals characters; a shorter run is followed by a non-equals character, so
  backtracking finds nothing more.
\<close>

definition clozeSpanAt :: "string \<Rightarrow> bool" where
  "clozeSpanAt s =
     (prefix ''=='' s \<and>
      takeWhile (\<lambda>c. c \<noteq> CHR ''='') (drop 2 s) \<noteq> [] \<and>
      prefix ''=='' (dropWhile (\<lambda>c. c \<noteq> CHR ''='') (drop 2 s)))"

fun matchClozeSpan :: "string \<Rightarrow> bool" where
  "matchClozeSpan [] = False"
| "matchClozeSpan (c # cs) = (clozeSpanAt (c # cs) \<or> matchClozeSpan cs)"

definition detectCardType :: "string \<Rightarrow> CardType option" where
  "detectCardType s =
     (if str_includes s ''???'' then Some MultiLineBidirectional
      else if str_includes s '':::'' then Some Bidirectional
      else if str_includes s ''::'' then Some OneWay
      else if str_includes s ''?'' then Some MultiLine
      else if str_includes s ''=='' \<and> matchClozeSpan s then Some Cloze
      else None)"

section \<open>FlashcardValidator (types.ts)\<close>

text \<open>\<open>xs.join(sep)\<close>.\<close>

fun join :: "string \<Rightarrow> string list \<Rightarrow> string" where
  "join sep [] = []"
| "join sep [x] = x"
| "join sep (x # y # ys) = x @ sep @ join sep (y # ys)"

record ValidationResult =
  isValid :: bool
  errors :: "string list"

definition tagErrors :: "string \<Rightarrow> string list" where
  "tagErrors tag =
     (if \<not> startsWith tag ''#''
      then [''Tag '' @ [CHR 0x22] @ tag @ [CHR 0x22] @ '' must start with #''] else []) @
     (if str_includes tag '' ''
      then [''Tag '' @ [CHR 0x22] @ tag @ [CHR 0x22] @ '' cannot contain spaces''] else [])"

definition validateRawFlashcard :: "RawFlashcard \<Rightarrow> ValidationResult" where
  "validateRawFlashcard crd =
     (let es =
        (if front crd = [] \<or> length (trim (front crd)) = 0
         then [''Front content is required and cannot be empty''] else []) @
        (if back_side crd = [] \<or> length (trim (back_side crd)) = 0
         then [''Back content is required and cannot be empty''] else []) @
        (if type crd \<notin> set CardType_values
         then [''Invalid card type: '' @ type crd] else []) @
        (if type crd = Cloze \<and>
            (\<not> str_includes (front crd) ''=='' \<or> \<not> matchClozeSpan (front crd))
         then [''Cloze cards must contain text wrapped in == markers''] else []) @
        (case tags crd of None \<Rightarrow> [] | Some ts \<Rightarrow> concat (map tagErrors ts))
      in \<lparr>isValid = (length es = 0), errors = es\<rparr>)"

section \<open>FlashcardGenerator (flashcard-generator.ts)\<close>

record GenerationOptions =
  maxCards :: "int option"
  cardTypes :: "CardType list"
  customPrompt :: "string option"
  optTags :: "string list option"

record ResponseMetadata =
  respTokensUsed :: "int option"
  respModel :: "string option"

record FlashcardResponse =
  cards :: "RawFlashcard list"
  respMetadata :: "ResponseMetadata option"

record ResultMetadata =
  resTokensUsed :: "int option"
  resModel :: "string option"
  cardsGenerated :: nat

record GenerationResult =
  success :: bool
  formattedCards :: "string option"
  rawCards :: "RawFlashcard list option"
  error :: "string option"
  metadata :: "ResultMetadata option"

definition failure :: "string \<Rightarrow> GenerationResult" where
  "failure msg = \<lparr>success = False, formattedCards = None, rawCards = None,
                   error = Some msg, metadata = None\<rparr>"

record InputCheck =
  inputValid :: bool
  inputError :: "string option"

definition validateInput :: "string \<Rightarrow> GenerationOptions \<Rightarrow> InputCheck" where
  "validateInput cnt options =
     (if cnt = [] \<or> length (trim cnt) = 0 then
        \<lparr>inputValid = False, inputError = Some
          ''Content cannot be empty. Please provide some text to generate flashcards from.''\<rparr>
      else if length (trim cnt) < 10 then
        \<lparr>inputValid = False, inputError = Some
          ''Content is too short. Please provide more substantial content for flashcard generation.''\<rparr>
      else if length (cardTypes options) = 0 then
        \<lparr>inputValid = False, inputError = Some ''At least one card type must be specified.''\<rparr>
      else (case filter (\<lambda>t. t \<notin> set CardType_values) (cardTypes options) of
              t # _ \<Rightarrow> \<lparr>inputValid = False, inputError = Some (''Invalid card type: '' @ t)\<rparr>
            | [] \<Rightarrow> \<lparr>inputValid = True, inputError = None\<rparr>))"

text \<open>
  \<open>convertCardType\<close>: the four separator types are always reachable; a card becomes a
  cloze card only when its front already has a cloze span; any other target gives
  \<open>null\<close>.
\<close>

definition convertCardType :: "RawFlashcard \<Rightarrow> CardType \<Rightarrow> RawFlashcard option" where
  "convertCardType crd targetType =
     (if targetType = OneWay then Some (crd\<lparr>type := OneWay\<rparr>)
      else if targetType = Bidirectional then Some (crd\<lparr>type := Bidirectional\<rparr>)
      else if targetType = MultiLine then Some (crd\<lparr>type := MultiLine\<rparr>)
      else if targetType = MultiLineBidirectional then Some (crd\<lparr>type := MultiLineBidirectional\<rparr>)
      else if targetType = Cloze then
        (if str_includes (front crd) ''=='' \<and> matchClozeSpan (front crd)
         then Some (crd\<lparr>type := Cloze\<rparr>) else None)
      else None)"

text \<open>Decimal rendering of a card index in \<open>`Card ${i + 1}: ...`\<close>.\<close>

definition digitChar :: "nat \<Rightarrow> char" where
  "digitChar d =
     (if d = 0 then CHR ''0'' else if d = 1 then CHR ''1'' else if d = 2 then CHR ''2''
      else if d = 3 then CHR ''3'' else if d = 4 then CHR ''4'' else if d = 5 then CHR ''5''
      else if d = 6 then CHR ''6'' else if d = 7 then CHR ''7'' else if d = 8 then CHR ''8''
      else CHR ''9'')"

function showNat :: "nat \<Rightarrow> string" where
  "showNat n = (if n < 10 then [digitChar n] else showNat (n div 10) @ [digitChar (n mod 10)])"
  by pat_completeness auto
termination
  by (relation "measure id") auto

declare showNat.simps [simp del]

text \<open>The error line of card \<open>i\<close>: \<open>`Card ${i + 1}: ${validation.errors.join(', ')}`\<close>.\<close>

definition cardError :: "nat \<Rightarrow> ValidationResult \<Rightarrow> string" where
  "cardError i validation =
     ''Card '' @ showNat (i + 1) @ '': '' @ join '', '' (errors validation)"

text \<open>
  The validation loop of \<open>processLLMResponse\<close>, from index \<open>i\<close> on: the cards kept and
  the error lines collected. \<open>options.cardTypes[0]\<close> of an empty list is \<open>undefined\<close>,
  which \<open>convertCardType\<close> answers with \<open>null\<close>.
\<close>

fun validateCards ::
  "GenerationOptions \<Rightarrow> nat \<Rightarrow> RawFlashcard list \<Rightarrow> RawFlashcard list \<times> string list" where
  "validateCards options i [] = ([], [])"
| "validateCards options i (crd # rest) =
     (let validation = validateRawFlashcard crd;
          (validated, errs) = validateCards options (i + 1) rest
      in if isValid validation then
           (if type crd \<in> set (cardTypes options) then (crd # validated, errs)
            else (case (case cardTypes options of [] \<Rightarrow> None
                        | t # _ \<Rightarrow> convertCardType crd t) of
                    Some convertedCard \<Rightarrow> (convertedCard # validated, errs)
                  | None \<Rightarrow> (validated, errs)))
         else (validated, cardError i validation # errs))"

text \<open>
  \<open>validatedCards.splice(n)\<close> keeps the first \<open>n\<close> cards, and for a negative \<open>n\<close>
  removes the last \<open>-n\<close>.
\<close>

definition spliceFrom :: "int \<Rightarrow> 'a list \<Rightarrow> 'a list" where
  "spliceFrom n xs = (if 0 \<le> n then take (nat n) xs else take (length xs - nat (- n)) xs)"

text \<open>
  \<open>processLLMResponse\<close> returns its result together with the notices it shows. Nothing
  in the \<open>try\<close> block throws on well-typed cards, so the \<open>catch\<close> branch has no case.
\<close>

definition processLLMResponse ::
  "FlashcardResponse \<Rightarrow> GenerationOptions \<Rightarrow> GenerationResult \<times> string list" where
  "processLLMResponse response options =
     (if length (cards response) = 0 then
        (failure (''LLM did not generate any flashcards. '' @
                  ''Try rephrasing your content or adjusting the prompt.''), [])
      else
        (let (validatedCards, errs) = validateCards options 0 (cards response)
         in if length validatedCards = 0 then
              (failure (''No valid flashcards could be generated. Errors: '' @ join ''; '' errs), [])
            else
              (let limited =
                     (case maxCards options of
                        None \<Rightarrow> validatedCards
                      | Some m \<Rightarrow>
                          if m \<noteq> 0 \<and> int (length validatedCards) > m
                          then spliceFrom m validatedCards else validatedCards)
               in (\<lparr>success = True, formattedCards = None, rawCards = Some limited,
                     error = None, metadata = None\<rparr>,
                   if length errs > 0
                   then [''Some flashcards had issues and were skipped: '' @
                         showNat (length errs) @ '' cards'']
                   else []))))"

text \<open>
  \<open>formatCards\<close>: the cards' markup joined by a blank line; a card that \<open>formatCard\<close>
  rejects makes the whole call throw.
\<close>

fun formatAll :: "RawFlashcard list \<Rightarrow> string + string list" where
  "formatAll [] = Inr []"
| "formatAll (crd # rest) =
     (case formatCard crd of
        Inl e \<Rightarrow> Inl e
      | Inr formatted \<Rightarrow>
          (case formatAll rest of Inl e \<Rightarrow> Inl e | Inr fs \<Rightarrow> Inr (content formatted # fs)))"

definition formatCards :: "RawFlashcard list \<Rightarrow> string list \<Rightarrow> string + string" where
  "formatCards cs ts =
     (if length cs = 0 then Inr []
      else (case formatAll cs of
              Inl e \<Rightarrow> Inl e
            | Inr formatted \<Rightarrow> Inr (join [CHR 0x0A, CHR 0x0A] formatted)))"

text \<open>What a model backend rejects with: an \<open>LLMError\<close> or a plain error.\<close>

record ProviderError =
  errType :: "string option"
  errMessage :: "string option"

definition handleError :: "ProviderError \<Rightarrow> string" where
  "handleError e =
     (let plain =
            (case errMessage e of
               Some m \<Rightarrow> if m \<noteq> [] then m
                         else ''An unexpected error occurred while generating flashcards.''
             | None \<Rightarrow> ''An unexpected error occurred while generating flashcards.'')
      in case errType e of
           Some t \<Rightarrow>
             (if t = [] then plain
              else if t = ''authentication'' then
                ''Authentication failed. Please check your API key configuration.''
              else if t = ''network'' then
                ''Network error occurred. Please check your internet connection and try again.''
              else if t = ''invalid_response'' then
                ''The LLM returned an invalid response. Please try again or adjust your prompt.''
              else ''LLM Error: '' @ (case errMessage e of Some m \<Rightarrow> m | None \<Rightarrow> ''undefined''))
         | None \<Rightarrow> plain)"

text \<open>
  \<open>generateFlashcards\<close> with the model backend as a parameter. The result comes with
  the calls made to the backend's \<open>generateFlashcards\<close> and with the notices shown.
\<close>

record Effects =
  providerCalls :: "(string \<times> GenerationOptions) list"
  notices :: "string list"

type_synonym Provider = "string \<Rightarrow> GenerationOptions \<Rightarrow> ProviderError + FlashcardResponse"

definition generateFlashcards ::
  "Provider \<Rightarrow> string \<Rightarrow> GenerationOptions \<Rightarrow> GenerationResult \<times> Effects" where
  "generateFlashcards provider cnt options =
     (let inputValidation = validateInput cnt options
      in if \<not> inputValid inputValidation then
           (\<lparr>success = False, formattedCards = None, rawCards = None,
             error = inputError inputValidation, metadata = None\<rparr>,
            \<lparr>providerCalls = [], notices = []\<rparr>)
         else
           (case provider cnt options of
              Inl e \<Rightarrow> (failure (handleError e), \<lparr>providerCalls = [(cnt, options)], notices = []\<rparr>)
            | Inr llmResponse \<Rightarrow>
                (let (processedCards, shown) = processLLMResponse llmResponse options;
                     eff = \<lparr>providerCalls = [(cnt, options)], notices = shown\<rparr>
                 in if \<not> success processedCards then (processedCards, eff)
                    else
                      (let kept = (case rawCards processedCards of Some cs \<Rightarrow> cs | None \<Rightarrow> [])
                       in case formatCards kept
                                 (case optTags options of Some ts \<Rightarrow> ts | None \<Rightarrow> []) of
                            Inl msg \<Rightarrow>
                              (failure (handleError \<lparr>errType = None, errMessage = Some msg\<rparr>), eff)
                          | Inr formattedContent \<Rightarrow>
                              (\<lparr>success = True, formattedCards = Some formattedContent,
                                rawCards = rawCards processedCards, error = None,
                                metadata = Some
                                  \<lparr>resTokensUsed =
                                     (case respMetadata llmResponse of
                                        None \<Rightarrow> None | Some md \<Rightarrow> respTokensUsed md),
                                   resModel =
                                     (case respMetadata llmResponse of
                                        None \<Rightarrow> None | Some md \<Rightarrow> respModel md),
                                   cardsGenerated = length kept\<rparr>\<rparr>, eff)))))"

section \<open>ContentProcessor.chunkContent (content-processor.ts)\<close>

text \<open>
  \<open>content.split(/\s+/)\<close>: the pieces between maximal white-space runs; white space
  at either end leaves an empty piece there, and the empty string gives one empty piece.
\<close>

function splitWs :: "string \<Rightarrow> string list" where
  "splitWs [] = [[]]"
| "splitWs (c # cs) =
     (if isSpace c then [] # splitWs (dropWhile isSpace cs)
      else (case splitWs cs of w # ws \<Rightarrow> (c # w) # ws | [] \<Rightarrow> [[c]]))"
  by pat_completeness auto
termination
  by (relation "measure length") (auto simp: length_dropWhile_le less_Suc_eq_le)

text \<open>
  \<open>xs.slice(s, e)\<close>: a negative index counts from the end, and both indices are
  clamped to the array.
\<close>

definition slice :: "'a list \<Rightarrow> int \<Rightarrow> int \<Rightarrow> 'a list" where
  "slice xs s e =
     (let n = int (length xs);
          k = (if s < 0 then max (n + s) 0 else min s n);
          f = (if e < 0 then max (n + e) 0 else min e n)
      in take (nat (f - k)) (drop (nat k) xs))"

text \<open>
  The \<open>while\<close> loop of \<open>chunkContent\<close>, as a function of the loop variables. The loop
  may run forever, so the result is an option and \<open>None\<close> stands for not returning.
\<close>

partial_function (option) chunkLoop ::
  "string list \<Rightarrow> int \<Rightarrow> int \<Rightarrow> int \<Rightarrow> string list \<Rightarrow> string list option" where
  "chunkLoop words chunkSize overlapSize startIndex chunks =
     (if startIndex < int (length words) then
        (let endIndex = min (startIndex + chunkSize) (int (length words));
             chunk = join '' '' (slice words startIndex endIndex);
             pushed = chunks @ [chunk];
             nextIndex = endIndex - overlapSize
         in if nextIndex \<ge> int (length words) then Some pushed
            else chunkLoop words chunkSize overlapSize nextIndex pushed)
      else Some chunks)"

declare chunkLoop.simps [code]

definition chunkContent :: "string \<Rightarrow> int \<Rightarrow> int \<Rightarrow> string list option" where
  "chunkContent cnt chunkSize overlapSize =
     (let words = splitWs cnt
      in if int (length words) \<le> chunkSize then Some [cnt]
         else chunkLoop words chunkSize overlapSize 0 [])"

section \<open>BaseLLMProvider (providers/base-provider.ts)\<close>

record ProviderConfig =
  apiKey :: "string option"
  endpoint :: "string option"
  model :: "string option"
  customHeaders :: "(string \<times> string) list option"

record BaseLLMProvider =
  config :: ProviderConfig

definition newProvider :: "ProviderConfig \<Rightarrow> BaseLLMProvider" where
  "newProvider cfg = \<lparr>config = cfg\<rparr>"

definition updateConfig :: "BaseLLMProvider \<Rightarrow> ProviderConfig \<Rightarrow> BaseLLMProvider" where
  "updateConfig p cfg = p\<lparr>config := cfg\<rparr>"

text \<open>
  The object that \<open>getConfig\<close> returns, as the list of its properties in the order of
  the object literal; an absent configuration field gives the value \<open>undefined\<close>.
\<close>

datatype ConfigValue = Undefined | Text string | Headers "(string \<times> string) list"

definition getConfig :: "BaseLLMProvider \<Rightarrow> (string \<times> ConfigValue) list" where
  "getConfig p =
     [(''endpoint'', case endpoint (config p) of None \<Rightarrow> Undefined | Some e \<Rightarrow> Text e),
      (''model'', case model (config p) of None \<Rightarrow> Undefined | Some m \<Rightarrow> Text m),
      (''customHeaders'',
         case customHeaders (config p) of None \<Rightarrow> Undefined | Some h \<Rightarrow> Headers h)]"

section \<open>PromptTemplateSystem (prompt-template-system.ts)\<close>

record PromptTemplate =
  templateId :: string
  templateName :: string
  description :: string
  template :: string
  variables :: "string list"
  templateCardTypes :: "CardType list"

record TemplateContext =
  ctxContent :: string
  title :: string
  wordCount :: int
  ctxMaxCards :: "int option"
  ctxCardTypes :: "CardType list"
  ctxTags :: "string list option"
  ctxMetadata :: "(string \<times> string) list option"

text \<open>
  The replacement text of \<open>String.prototype.replace\<close> for a pattern without capture
  groups: \<open>$$\<close> is a dollar sign, \<open>$&\<close> the matched text, \<open>$`\<close> the text before the
  match and \<open>$'\<close> the text after it; every other character stands for itself.
\<close>

fun expandReplacement :: "string \<Rightarrow> string \<Rightarrow> string \<Rightarrow> string \<Rightarrow> string" where
  "expandReplacement matched preceding following [] = []"
| "expandReplacement matched preceding following [c] = [c]"
| "expandReplacement matched preceding following (c # d # r) =
     (if c = CHR ''$'' \<and> d = CHR ''$'' then CHR ''$'' # expandReplacement matched preceding following r
      else if c = CHR ''$'' \<and> d = CHR ''&'' then matched @ expandReplacement matched preceding following r
      else if c = CHR ''$'' \<and> d = CHR 0x60 then preceding @ expandReplacement matched preceding following r
      else if c = CHR ''$'' \<and> d = CHR 0x27 then following @ expandReplacement matched preceding following r
      else c # expandReplacement matched preceding following (d # r))"

text \<open>
  \<open>s.replace(/pat/g, repl)\<close> for a literal pattern: every occurrence, found from left to
  right without overlap, is replaced. \<open>preceding\<close> is the part of the subject already
  passed. The patterns of the source are never empty.
\<close>

function replaceAllFrom :: "string \<Rightarrow> string \<Rightarrow> string \<Rightarrow> string \<Rightarrow> string" where
  "replaceAllFrom pat repl preceding [] = []"
| "replaceAllFrom pat repl preceding (c # cs) =
     (if pat = [] then c # cs
      else if prefix pat (c # cs) then
        expandReplacement pat preceding (drop (length pat) (c # cs)) repl @
        replaceAllFrom pat repl (preceding @ pat) (drop (length pat) (c # cs))
      else c # replaceAllFrom pat repl (preceding @ [c]) cs)"
  by pat_completeness auto
termination
  by (relation "measure (\<lambda>(pat, repl, preceding, s). length s)") (auto simp: prefix_def)

definition replaceAll :: "string \<Rightarrow> string \<Rightarrow> string \<Rightarrow> string" where
  "replaceAll pat repl s = replaceAllFrom pat repl [] s"

text \<open>
  \<open>n.toString()\<close> of an integer of magnitude below \<open>10\<^sup>2\<^sup>1\<close>, where
  JavaScript prints all digits; from there on it prints an exponent, which is outside
  this model. A word count is bounded by the length of a string and stays below.
\<close>

definition showInt :: "int \<Rightarrow> string" where
  "showInt i = (if i < 0 then CHR ''-'' # showNat (nat (- i)) else showNat (nat i))"

definition cardTypeToDisplayName :: "CardType \<Rightarrow> string" where
  "cardTypeToDisplayName cardType =
     (if cardType = OneWay then ''one-way''
      else if cardType = Bidirectional then ''bidirectional''
      else if cardType = MultiLine then ''multi-line''
      else if cardType = MultiLineBidirectional then ''multi-line bidirectional''
      else if cardType = Cloze then ''cloze deletion''
      else cardType)"

definition addTemplate ::
  "(string \<rightharpoonup> PromptTemplate) \<Rightarrow> PromptTemplate \<Rightarrow> (string \<rightharpoonup> PromptTemplate)" where
  "addTemplate templates t = templates(templateId t \<mapsto> t)"

text \<open>\<open>renderTemplate\<close>; the thrown "not found" error is the \<open>Inl\<close> value.\<close>

definition renderTemplate ::
  "(string \<rightharpoonup> PromptTemplate) \<Rightarrow> string \<Rightarrow> TemplateContext \<Rightarrow> string + string" where
  "renderTemplate templates tid ctx =
     (case templates tid of
        None \<Rightarrow> Inl (''Template '' @ [CHR 0x27] @ tid @ [CHR 0x27] @ '' not found'')
      | Some t \<Rightarrow>
          (let r0 = template t;
               r1 = replaceAll ''{content}'' (ctxContent ctx) r0;
               r2 = replaceAll ''{title}'' (title ctx) r1;
               r3 = replaceAll ''{wordCount}'' (showInt (wordCount ctx)) r2;
               r4 = replaceAll ''{maxCards}''
                      (showInt (case ctxMaxCards ctx of
                                  None \<Rightarrow> 5 | Some m \<Rightarrow> if m = 0 then 5 else m)) r3;
               cardTypesText = join '', '' (map cardTypeToDisplayName (ctxCardTypes ctx));
               r5 = replaceAll ''{cardTypes}'' cardTypesText r4;
               r6 = (case ctxTags ctx of
                       Some (tg # tgs) \<Rightarrow>
                         (let tagsText = join '' '' (tg # tgs);
                              tagsInstruction = ''Apply these tags to each card: '' @ tagsText
                          in replaceAll ''{tagsInstruction}'' tagsInstruction
                               (replaceAll ''{tags}'' tagsText r5))
                     | _ \<Rightarrow> replaceAll ''{tagsInstruction}'' [] (replaceAll ''{tags}'' [] r5));
               r7 = (case ctxMetadata ctx of
                       Some kvs \<Rightarrow>
                         replaceAll ''{metadata}''
                           (join '', '' (map (\<lambda>(k, v). k @ '': '' @ v) kvs)) r6
                     | None \<Rightarrow> replaceAll ''{metadata}'' [] r6)
           in Inr (trim r7)))"

section \<open>Response parsing (AnthropicProvider)\<close>

text \<open>\<open>content.split('\n')\<close>.\<close>

fun splitOn :: "char \<Rightarrow> string \<Rightarrow> string list" where
  "splitOn d [] = [[]]"
| "splitOn d (c # cs) =
     (if c = d then [] # splitOn d cs
      else (case splitOn d cs of w # ws \<Rightarrow> (c # w) # ws | [] \<Rightarrow> [[c]]))"

text \<open>\<open>toLowerCase\<close> on code units below 256: the ASCII and the Latin-1 capitals.\<close>

definition lowerChar :: "char \<Rightarrow> char" where
  "lowerChar c =
     (let n = (of_char c :: nat)
      in if (65 \<le> n \<and> n \<le> 90) \<or> (192 \<le> n \<and> n \<le> 222 \<and> n \<noteq> 215)
         then char_of (n + 32) else c)"

definition toLowerCase :: "string \<Rightarrow> string" where
  "toLowerCase s = map lowerChar s"

text \<open>
  \<open>s.replace(/^(p1|p2)/i, '')\<close>: the first alternative that the start of \<open>s\<close> matches,
  letter case ignored, is cut off. The alternatives are given in lower case.
\<close>

definition stripPrefixCI :: "string list \<Rightarrow> string \<Rightarrow> string" where
  "stripPrefixCI alts s =
     (case filter (\<lambda>p. prefix p (toLowerCase s)) alts of
        p # _ \<Rightarrow> drop (length p) s
      | [] \<Rightarrow> s)"

text \<open>The pending card of the line scanner, a \<open>Partial<RawFlashcard>\<close>.\<close>

record Pending =
  pfront :: "string option"
  pback :: "string option"

text \<open>Truthiness of an optional string: defined and not empty.\<close>

definition truthy :: "string option \<Rightarrow> bool" where
  "truthy x = (case x of None \<Rightarrow> False | Some s \<Rightarrow> s \<noteq> [])"

text \<open>
  \<open>mergeTags\<close>: leading \<open>#\<close> characters are cut off and one is put back; the \<open>Set\<close>
  keeps the first occurrence of each tag in insertion order.
\<close>

definition addTag :: "string list \<Rightarrow> string \<Rightarrow> string list" where
  "addTag acc tag =
     (let cleanTag = dropWhile (\<lambda>c. c = CHR ''#'') tag
      in if length cleanTag > 0
         then (if (CHR ''#'' # cleanTag) \<in> set acc then acc else acc @ [CHR ''#'' # cleanTag])
         else acc)"

definition mergeTags :: "string list option \<Rightarrow> string list option \<Rightarrow> string list" where
  "mergeTags cardTags optionTags =
     foldl addTag
       (foldl addTag [] (case cardTags of None \<Rightarrow> [] | Some ts \<Rightarrow> ts))
       (case optionTags of None \<Rightarrow> [] | Some ts \<Rightarrow> ts)"

definition completeCard :: "Pending \<Rightarrow> GenerationOptions \<Rightarrow> RawFlashcard" where
  "completeCard partial options =
     \<lparr>front = (case pfront partial of Some f \<Rightarrow> f | None \<Rightarrow> []),
      back_side = (case pback partial of Some b \<Rightarrow> b | None \<Rightarrow> []),
      type = (case cardTypes options of
                t # _ \<Rightarrow> if t \<noteq> [] then t else OneWay
              | [] \<Rightarrow> OneWay),
      tags = Some (mergeTags None (optTags options))\<rparr>"

text \<open>One round of the \<open>for\<close> loop of \<open>parseAsPlainText\<close> on the cards and the pending card.\<close>

definition scanLine ::
  "GenerationOptions \<Rightarrow> RawFlashcard list \<times> Pending \<Rightarrow> string \<Rightarrow> RawFlashcard list \<times> Pending" where
  "scanLine options st line =
     (let (cs, currentCard) = st;
          trimmed = trim line
      in if startsWith (toLowerCase trimmed) ''q:'' \<or> startsWith (toLowerCase trimmed) ''question:''
         then
           (if truthy (pfront currentCard) \<and> truthy (pback currentCard)
            then cs @ [completeCard currentCard options] else cs,
            \<lparr>pfront = Some (trim (stripPrefixCI [''q:'', ''question:''] trimmed)), pback = None\<rparr>)
         else if startsWith (toLowerCase trimmed) ''a:'' \<or> startsWith (toLowerCase trimmed) ''answer:''
         then (cs, currentCard\<lparr>pback := Some (trim (stripPrefixCI [''a:'', ''answer:''] trimmed))\<rparr>)
         else if truthy (pfront currentCard) \<and> \<not> truthy (pback currentCard) \<and> trimmed \<noteq> []
         then (cs, currentCard\<lparr>pback := Some trimmed\<rparr>)
         else (cs, currentCard))"

definition parseAsPlainText :: "string \<Rightarrow> GenerationOptions \<Rightarrow> FlashcardResponse" where
  "parseAsPlainText cnt options =
     (let lines = filter (\<lambda>line. trim line \<noteq> []) (splitOn (CHR 0x0A) cnt);
          (cs, currentCard) = foldl (scanLine options) ([], \<lparr>pfront = None, pback = None\<rparr>) lines
      in \<lparr>cards = (if truthy (pfront currentCard) \<and> truthy (pback currentCard)
                   then cs @ [completeCard currentCard options] else cs),
          respMetadata = None\<rparr>)"

text \<open>
  \<open>content.match(/\{[\s\S]*\}/)\<close>: the text from the first opening brace to the last
  closing brace behind it, if there is one.
\<close>

definition jsonMatch :: "string \<Rightarrow> string option" where
  "jsonMatch s =
     (let r = dropWhile (\<lambda>c. c \<noteq> CHR ''{'') s;
          m = rev (dropWhile (\<lambda>c. c \<noteq> CHR ''}'') (rev r))
      in if r = [] \<or> m = [] then None else Some m)"

text \<open>
  The value that \<open>JSON.parse\<close> returns. \<open>JSON.parse\<close> itself is a parameter of
  \<open>parseFlashcardResponse\<close>: \<open>None\<close> when it throws.
\<close>

datatype Json = JNull | JBool bool | JNum int | JStr string | JArr "Json list"
  | JObj "(string \<times> Json) list"

definition jsTruthy :: "Json \<Rightarrow> bool" where
  "jsTruthy v = (case v of JNull \<Rightarrow> False | JBool b \<Rightarrow> b | JNum n \<Rightarrow> n \<noteq> 0
                 | JStr s \<Rightarrow> s \<noteq> [] | JArr _ \<Rightarrow> True | JObj _ \<Rightarrow> True)"

definition jsField :: "Json \<Rightarrow> string \<Rightarrow> Json option" where
  "jsField v k = (case v of JObj kvs \<Rightarrow> map_of kvs k | _ \<Rightarrow> None)"

definition stringField :: "Json \<Rightarrow> string \<Rightarrow> string option" where
  "stringField v k = (case jsField v k of Some (JStr s) \<Rightarrow> Some s | _ \<Rightarrow> None)"

definition validateFlashcardResponse :: "Json \<Rightarrow> bool" where
  "validateFlashcardResponse response =
     (jsTruthy response \<and>
      (case jsField response ''cards'' of
         Some (JArr cs) \<Rightarrow>
           list_all (\<lambda>c. jsTruthy c \<and> stringField c ''front'' \<noteq> None \<and>
                          stringField c ''back'' \<noteq> None \<and> stringField c ''type'' \<noteq> None) cs
       | _ \<Rightarrow> False))"

definition validateCardType :: "string \<Rightarrow> CardType" where
  "validateCardType t = (if t \<in> set CardType_values then t else OneWay)"

text \<open>
  The \<open>tags\<close> property of a parsed card as \<open>mergeTags\<close> reads it: absent or falsy it is
  skipped; an array of strings is used; anything else makes \<open>forEach\<close> or \<open>replace\<close>
  throw (the outer \<open>None\<close>).
\<close>

definition cardTagsOf :: "Json \<Rightarrow> string list option option" where
  "cardTagsOf c =
     (case jsField c ''tags'' of
        None \<Rightarrow> Some None
      | Some (JArr ts) \<Rightarrow>
          (if list_all (\<lambda>t. case t of JStr _ \<Rightarrow> True | _ \<Rightarrow> False) ts
           then Some (Some (map (\<lambda>t. case t of JStr s \<Rightarrow> s | _ \<Rightarrow> []) ts))
           else None)
      | Some v \<Rightarrow> if jsTruthy v then None else Some None)"

definition parsedCard :: "GenerationOptions \<Rightarrow> Json \<Rightarrow> RawFlashcard option" where
  "parsedCard options c =
     (case (stringField c ''front'', stringField c ''back'', stringField c ''type'', cardTagsOf c) of
        (Some f, Some b, Some t, Some cardTags) \<Rightarrow>
          Some \<lparr>front = trim f, back_side = trim b, type = validateCardType t,
                tags = Some (mergeTags cardTags (optTags options))\<rparr>
      | _ \<Rightarrow> None)"

definition parseFlashcardResponse ::
  "(string \<Rightarrow> Json option) \<Rightarrow> string \<Rightarrow> GenerationOptions \<Rightarrow> FlashcardResponse" where
  "parseFlashcardResponse jsonParse cnt options =
     (case jsonMatch cnt of
        None \<Rightarrow> parseAsPlainText cnt options
      | Some m \<Rightarrow>
          (case jsonParse m of
             None \<Rightarrow> parseAsPlainText cnt options
           | Some parsed \<Rightarrow>
               if \<not> validateFlashcardResponse parsed then parseAsPlainText cnt options
               else (case jsField parsed ''cards'' of
                       Some (JArr cs) \<Rightarrow>
                         (if list_all (\<lambda>c. parsedCard options c \<noteq> None) cs
                          then \<lparr>cards = map (\<lambda>c. the (parsedCard options c)) cs,
                                respMetadata = None\<rparr>
                          else parseAsPlainText cnt options)
                     | _ \<Rightarrow> parseAsPlainText cnt options)))"

text \<open>
  The line scanner in the words of the specification, for comparison with
  \<open>parseAsPlainText\<close>: it reads the trimmed non-blank lines with the pending front and
  back (empty when not set). A question line closes and emits a complete pending card and
  starts a new one; an answer line sets the back; any other line becomes the back when the
  front is set and the back is not; at the end a complete pending card is emitted. The
  type of an emitted card is the first card type of the options.
\<close>

definition isQuestionLine :: "string \<Rightarrow> bool" where
  "isQuestionLine t = (prefix ''q:'' (toLowerCase t) \<or> prefix ''question:'' (toLowerCase t))"

definition isAnswerLine :: "string \<Rightarrow> bool" where
  "isAnswerLine t = (prefix ''a:'' (toLowerCase t) \<or> prefix ''answer:'' (toLowerCase t))"

definition questionText :: "string \<Rightarrow> string" where
  "questionText t =
     trim (drop (length (if prefix ''q:'' (toLowerCase t) then ''q:'' else ''question:'')) t)"

definition answerText :: "string \<Rightarrow> string" where
  "answerText t =
     trim (drop (length (if prefix ''a:'' (toLowerCase t) then ''a:'' else ''answer:'')) t)"

definition scannedCard :: "GenerationOptions \<Rightarrow> string \<Rightarrow> string \<Rightarrow> RawFlashcard" where
  "scannedCard options f b =
     \<lparr>front = f, back_side = b,
      type = (case cardTypes options of t # _ \<Rightarrow> if t \<noteq> [] then t else OneWay | [] \<Rightarrow> OneWay),
      tags = Some (mergeTags None (optTags options))\<rparr>"

fun lineScanSpec :: "GenerationOptions \<Rightarrow> string \<Rightarrow> string \<Rightarrow> string list \<Rightarrow> RawFlashcard list" where
  "lineScanSpec options f b [] = (if f \<noteq> [] \<and> b \<noteq> [] then [scannedCard options f b] else [])"
| "lineScanSpec options f b (t # rest) =
     (if isQuestionLine t then
        (if f \<noteq> [] \<and> b \<noteq> [] then [scannedCard options f b] else []) @
        lineScanSpec options (questionText t) [] rest
      else if isAnswerLine t then lineScanSpec options f (answerText t) rest
      else if f \<noteq> [] \<and> b = [] \<and> t \<noteq> [] then lineScanSpec options f t rest
      else lineScanSpec options f b rest)"

text \<open>The text of an optional field of the pending card, empty when it is not set.\<close>

definition pendingText :: "string option \<Rightarrow> string" where
  "pendingText x = (case x of Some s \<Rightarrow> s | None \<Rightarrow> [])"

text \<open>
  The input condition of the round trip: the separators of the card types other than
  \<open>t\<close>, as \<open>getSeparator\<close> gives them, and a text that contains none of them.
\<close>

definition otherSeparators :: "CardType \<Rightarrow> string list" where
  "otherSeparators t =
     concat (map (\<lambda>t'. case getSeparator t' of Inr sep \<Rightarrow> [sep] | Inl _ \<Rightarrow> [])
                 (filter (\<lambda>t'. t' \<noteq> t) CardType_values))"

definition freeOfOtherSeparators :: "CardType \<Rightarrow> string \<Rightarrow> bool" where
  "freeOfOtherSeparators t s = (\<forall>sep \<in> set (otherSeparators t). \<not> str_includes s sep)"

section \<open>Properties of the string primitives\<close>

lemma str_includes_iff: "str_includes s p \<longleftrightarrow> (\<exists>u v. s = u @ p @ v)"
proof (induction s)
  case Nil
  then show ?case by auto
next
  case (Cons c cs)
  show ?case
  proof
    assume "str_includes (c # cs) p"
    then consider "prefix p (c # cs)" | "str_includes cs p" by auto
    then show "\<exists>u v. c # cs = u @ p @ v"
    proof cases
      case 1
      then obtain v where "c # cs = p @ v" by (auto simp: prefix_def)
      then have "c # cs = [] @ p @ v" by simp
      then show ?thesis by blast
    next
      case 2
      with Cons obtain u v where "cs = u @ p @ v" by blast
      then have "c # cs = (c # u) @ p @ v" by simp
      then show ?thesis by blast
    qed
  next
    assume "\<exists>u v. c # cs = u @ p @ v"
    then obtain u v where uv: "c # cs = u @ p @ v" by blast
    show "str_includes (c # cs) p"
    proof (cases u)
      case Nil
      with uv have "prefix p (c # cs)" by (simp add: prefix_def)
      then show ?thesis by simp
    next
      case (Cons a u')
      with uv have "cs = u' @ p @ v" by simp
      with Cons.IH show ?thesis by auto
    qed
  qed
qed

lemma set_collapseWs: "set (collapseWs s) \<subseteq> {c \<in> set s. \<not> isSpace c} \<union> {CHR '' ''}"
proof (induction s rule: collapseWs.induct)
  case 1
  then show ?case by simp
next
  case (2 c cs)
  show ?case
  proof (cases "isSpace c")
    case True
    with 2 have "set (collapseWs (dropWhile isSpace cs)) \<subseteq> {c \<in> set (dropWhile isSpace cs). \<not> isSpace c} \<union> {CHR '' ''}" by simp
    moreover have "set (dropWhile isSpace cs) \<subseteq> set cs" by (simp add: set_dropWhileD subsetI)
    ultimately show ?thesis using True by auto
  next
    case False
    with 2 show ?thesis by auto
  qed
qed

lemma replaceBlankLines_id: "CHR 0x0A \<notin> set s \<Longrightarrow> replaceBlankLines s = s"
  by (induction s) auto

lemma newline_notin_collapseWs: "CHR 0x0A \<notin> set (collapseWs s)"
  using set_collapseWs [of s] by (auto simp: isSpace_def)

lemma cleanText_eq: "cleanText s = collapseWs (trim s)"
  by (simp add: cleanText_def replaceBlankLines_id newline_notin_collapseWs)

lemma set_trim: "set (trim s) \<subseteq> set s"
  unfolding trim_def by (metis set_dropWhileD set_rev subsetI)

lemma clozeSpanAt_iff:
  "clozeSpanAt s \<longleftrightarrow> (\<exists>m v. s = ''=='' @ m @ ''=='' @ v \<and> m \<noteq> [] \<and> CHR ''='' \<notin> set m)"
proof
  assume a: "clozeSpanAt s"
  define r where "r = drop 2 s"
  define m where "m = takeWhile (\<lambda>c. c \<noteq> CHR ''='') r"
  from a have p: "prefix ''=='' s" and ne: "m \<noteq> []"
    and q: "prefix ''=='' (dropWhile (\<lambda>c. c \<noteq> CHR ''='') r)"
    by (auto simp: clozeSpanAt_def m_def r_def)
  from p have s: "s = ''=='' @ r" by (auto simp: prefix_def r_def)
  from q obtain v where v: "dropWhile (\<lambda>c. c \<noteq> CHR ''='') r = ''=='' @ v"
    by (auto simp: prefix_def)
  have "r = m @ ''=='' @ v"
    using takeWhile_dropWhile_id [of "\<lambda>c. c \<noteq> CHR ''=''" r] v by (simp add: m_def)
  moreover have "CHR ''='' \<notin> set m"
    unfolding m_def by (auto dest: set_takeWhileD)
  ultimately show "\<exists>m v. s = ''=='' @ m @ ''=='' @ v \<and> m \<noteq> [] \<and> CHR ''='' \<notin> set m"
    using s ne by blast
next
  assume "\<exists>m v. s = ''=='' @ m @ ''=='' @ v \<and> m \<noteq> [] \<and> CHR ''='' \<notin> set m"
  then obtain m v where s: "s = ''=='' @ m @ ''=='' @ v" and ne: "m \<noteq> []"
    and m: "CHR ''='' \<notin> set m" by blast
  have d: "drop 2 s = m @ CHR ''='' # CHR ''='' # v" using s by simp
  have t: "takeWhile (\<lambda>c. c \<noteq> CHR ''='') (m @ CHR ''='' # CHR ''='' # v) = m"
    using m by (induction m) auto
  have dw: "dropWhile (\<lambda>c. c \<noteq> CHR ''='') (m @ CHR ''='' # CHR ''='' # v) = CHR ''='' # CHR ''='' # v"
    using m by (induction m) auto
  show "clozeSpanAt s"
    unfolding clozeSpanAt_def d t dw using s ne by simp
qed

lemma matchClozeSpan_iff:
  "matchClozeSpan s \<longleftrightarrow>
     (\<exists>u m v. s = u @ ''=='' @ m @ ''=='' @ v \<and> m \<noteq> [] \<and> CHR ''='' \<notin> set m)"
proof (induction s)
  case Nil
  then show ?case by simp
next
  case (Cons c cs)
  show ?case
  proof
    assume "matchClozeSpan (c # cs)"
    then consider "clozeSpanAt (c # cs)" | "matchClozeSpan cs" by auto
    then show "\<exists>u m v. c # cs = u @ ''=='' @ m @ ''=='' @ v \<and> m \<noteq> [] \<and> CHR ''='' \<notin> set m"
    proof cases
      case 1
      then obtain m v where "c # cs = [] @ ''=='' @ m @ ''=='' @ v" "m \<noteq> []" "CHR ''='' \<notin> set m"
        unfolding clozeSpanAt_iff by auto
      then show ?thesis by blast
    next
      case 2
      then obtain u m v where "cs = u @ ''=='' @ m @ ''=='' @ v" "m \<noteq> []" "CHR ''='' \<notin> set m"
        using Cons.IH by blast
      then have "c # cs = (c # u) @ ''=='' @ m @ ''=='' @ v \<and> m \<noteq> [] \<and> CHR ''='' \<notin> set m"
        by simp
      then show ?thesis by blast
    qed
  next
    assume "\<exists>u m v. c # cs = u @ ''=='' @ m @ ''=='' @ v \<and> m \<noteq> [] \<and> CHR ''='' \<notin> set m"
    then obtain u m v where s: "c # cs = u @ ''=='' @ m @ ''=='' @ v" and ne: "m \<noteq> []"
      and m: "CHR ''='' \<notin> set m" by blast
    show "matchClozeSpan (c # cs)"
    proof (cases u)
      case Nil
      with s ne m have "clozeSpanAt (c # cs)" unfolding clozeSpanAt_iff by auto
      then show ?thesis by simp
    next
      case (Cons a u')
      with s have "cs = u' @ ''=='' @ m @ ''=='' @ v" by simp
      with ne m Cons.IH have "matchClozeSpan cs" by blast
      then show ?thesis by simp
    qed
  qed
qed

lemma prefix_before_foreign:
  "prefix p (x @ c # v) \<Longrightarrow> c \<notin> set p \<Longrightarrow> prefix p x"
  by (auto simp: prefix_append prefix_Cons)

lemma str_includes_across_char:
  "str_includes (u @ c # v) p \<Longrightarrow> c \<notin> set p \<Longrightarrow> str_includes u p \<or> str_includes v p"
proof (induction u)
  case Nil
  then show ?case by (cases p) (auto simp: prefix_Cons)
next
  case (Cons a u)
  from Cons.prems(1) consider "prefix p ((a # u) @ c # v)" | "str_includes (u @ c # v) p" by auto
  then show ?case
  proof cases
    case 1
    then have "prefix p (a # u)" using Cons.prems(2) by (rule prefix_before_foreign)
    then show ?thesis by simp
  next
    case 2
    with Cons show ?thesis by auto
  qed
qed

lemma str_includes_qmark_junction:
  "str_includes (u @ ''?'') ''???'' \<Longrightarrow> str_includes u ''???'' \<or> suffix ''??'' u"
proof (induction u)
  case Nil
  then show ?case by simp
next
  case (Cons a u)
  from Cons.prems consider "prefix ''???'' (a # u @ ''?'')" | "str_includes (u @ ''?'') ''???''" by auto
  then show ?case
  proof cases
    case 1
    then show ?thesis
      by (cases u; cases "tl u") (auto simp: suffix_def)
  next
    case 2
    with Cons.IH show ?thesis by (auto simp: suffix_Cons)
  qed
qed

lemma str_includes_colon_junction:
  "str_includes (u @ ''::'' @ v) '':::'' \<Longrightarrow>
     str_includes u '':::'' \<or> str_includes v '':::'' \<or> suffix '':'' u \<or> prefix '':'' v"
proof (induction u)
  case Nil
  then show ?case by (cases v) (auto simp: prefix_Cons)
next
  case (Cons a u)
  from Cons.prems consider "prefix '':::'' (a # u @ ''::'' @ v)" | "str_includes (u @ ''::'' @ v) '':::''" by auto
  then show ?case
  proof cases
    case 1
    then show ?thesis
      by (cases u; cases "tl u") (auto simp: suffix_def)
  next
    case 2
    with Cons.IH show ?thesis by (auto simp: suffix_Cons)
  qed
qed

section \<open>Text cleaning\<close>

lemma trim_decomp: "\<exists>w1 w2. s = w1 @ trim s @ w2"
proof -
  define d where "d = dropWhile isSpace s"
  have "s = takeWhile isSpace s @ d" by (simp add: d_def)
  moreover have "rev d = takeWhile isSpace (rev d) @ dropWhile isSpace (rev d)" by simp
  then have "d = rev (dropWhile isSpace (rev d)) @ rev (takeWhile isSpace (rev d))"
    by (metis rev_append rev_rev_ident)
  then have "d = trim s @ rev (takeWhile isSpace (rev d))" by (simp add: trim_def d_def)
  ultimately have "s = takeWhile isSpace s @ trim s @ rev (takeWhile isSpace (rev d))" by simp
  then show ?thesis by blast
qed

lemma str_includes_trim: "str_includes (trim s) p \<Longrightarrow> str_includes s p"
proof -
  assume "str_includes (trim s) p"
  then obtain u v where t: "trim s = u @ p @ v" unfolding str_includes_iff by blast
  obtain w1 w2 where "s = w1 @ trim s @ w2" using trim_decomp by blast
  with t have "s = (w1 @ u) @ p @ (v @ w2)" by simp
  then show ?thesis unfolding str_includes_iff by blast
qed

lemma prefix_collapseWs:
  "prefix p (collapseWs s) \<Longrightarrow> \<forall>c\<in>set p. \<not> isSpace c \<Longrightarrow> prefix p s"
proof (induction s arbitrary: p rule: collapseWs.induct)
  case 1
  then show ?case by simp
next
  case (2 c cs)
  show ?case
  proof (cases p)
    case Nil
    then show ?thesis by simp
  next
    case (Cons a p')
    show ?thesis
    proof (cases "isSpace c")
      case True
      with "2.prems"(1) Cons have "a = CHR '' ''" by simp
      moreover from "2.prems"(2) Cons have "\<not> isSpace a" by simp
      ultimately have False by (simp add: isSpace_def)
      then show ?thesis ..
    next
      case False
      with "2.prems"(1) Cons have "a = c" "prefix p' (collapseWs cs)" by simp_all
      moreover from "2.prems"(2) Cons have "\<forall>c\<in>set p'. \<not> isSpace c" by simp
      ultimately show ?thesis using "2.IH"(2) False Cons by simp
    qed
  qed
qed

lemma str_includes_dropWhile: "str_includes (dropWhile P s) p \<Longrightarrow> str_includes s p"
proof -
  assume "str_includes (dropWhile P s) p"
  then obtain u v where "dropWhile P s = u @ p @ v" unfolding str_includes_iff by blast
  then have "s = (takeWhile P s @ u) @ p @ v"
    by (metis append.assoc takeWhile_dropWhile_id)
  then show ?thesis unfolding str_includes_iff by blast
qed

lemma str_includes_collapseWs:
  "str_includes (collapseWs s) p \<Longrightarrow> p \<noteq> [] \<Longrightarrow> \<forall>c\<in>set p. \<not> isSpace c \<Longrightarrow> str_includes s p"
proof (induction s rule: collapseWs.induct)
  case 1
  then show ?case by simp
next
  case (2 c cs)
  show ?case
  proof (cases "isSpace c")
    case True
    have "\<not> prefix p (CHR '' '' # collapseWs (dropWhile isSpace cs))"
      using "2.prems"(2,3) by (cases p) (auto simp: isSpace_def)
    with "2.prems"(1) True have "str_includes (collapseWs (dropWhile isSpace cs)) p" by simp
    with "2.IH"(1) "2.prems" True have "str_includes (dropWhile isSpace cs) p" by simp
    then have "str_includes cs p" by (rule str_includes_dropWhile)
    then show ?thesis by simp
  next
    case False
    with "2.prems"(1) consider "prefix p (collapseWs (c # cs))" | "str_includes (collapseWs cs) p" by auto
    then show ?thesis
    proof cases
      case 1
      have "prefix p (c # cs)" by (rule prefix_collapseWs [OF 1 "2.prems"(3)])
      then show ?thesis by simp
    next
      case 2
      with "2.IH"(2) False "2.prems" have "str_includes cs p" by simp
      then show ?thesis by simp
    qed
  qed
qed

lemma str_includes_cleanText:
  "str_includes (cleanText s) p \<Longrightarrow> p \<noteq> [] \<Longrightarrow> \<forall>c\<in>set p. \<not> isSpace c \<Longrightarrow> str_includes s p"
  unfolding cleanText_eq by (blast intro: str_includes_trim str_includes_collapseWs)

lemma set_cleanText: "set (cleanText s) \<subseteq> set s \<union> {CHR '' ''}"
  unfolding cleanText_eq using set_collapseWs [of "trim s"] set_trim [of s] by auto

lemma str_includes_set: "str_includes s p \<Longrightarrow> set p \<subseteq> set s"
  unfolding str_includes_iff by auto

lemma str_includes_single: "str_includes s [c] \<longleftrightarrow> c \<in> set s"
  unfolding str_includes_iff by (metis append_Cons append_Nil split_list in_set_conv_decomp)


text \<open>
  C2 (text cleaning keeps a single line break between non-blank text): the code does not.
  \<open>cleanText\<close> first replaces every white-space run, line feeds included, by one
  space, so the later replacement of blank-line sequences finds no line feed at all. On
  the input \<open>a\<newline>b\<close> (one line feed between two letters) the result is \<open>a b\<close>,
  and no cleaned text ever contains a line feed.
\<close>

theorem cleanText_loses_line_break:
  "cleanText [CHR ''a'', CHR 0x0A, CHR ''b''] = ''a b'' \<and> (\<forall>s. CHR 0x0A \<notin> set (cleanText s))"
proof
  show "cleanText [CHR ''a'', CHR 0x0A, CHR ''b''] = ''a b''"
    by (simp add: cleanText_def trim_def isSpace_def)
  show "\<forall>s. CHR 0x0A \<notin> set (cleanText s)"
    by (simp add: cleanText_eq newline_notin_collapseWs)
qed

section \<open>Encoding and type detection\<close>

lemma CardType_distinct:
  "OneWay \<noteq> Bidirectional" "OneWay \<noteq> MultiLine" "OneWay \<noteq> MultiLineBidirectional"
  "OneWay \<noteq> Cloze" "Bidirectional \<noteq> OneWay" "Bidirectional \<noteq> MultiLine"
  "Bidirectional \<noteq> MultiLineBidirectional" "Bidirectional \<noteq> Cloze"
  "MultiLine \<noteq> OneWay" "MultiLine \<noteq> Bidirectional" "MultiLine \<noteq> MultiLineBidirectional"
  "MultiLine \<noteq> Cloze" "MultiLineBidirectional \<noteq> OneWay"
  "MultiLineBidirectional \<noteq> Bidirectional" "MultiLineBidirectional \<noteq> MultiLine"
  "MultiLineBidirectional \<noteq> Cloze" "Cloze \<noteq> OneWay" "Cloze \<noteq> Bidirectional"
  "Cloze \<noteq> MultiLine" "Cloze \<noteq> MultiLineBidirectional"
  by (simp_all add: CardType_defs)

lemma otherSeparators_simps:
  "otherSeparators OneWay = ['':::'', ''?'', ''???'', ''=='']"
  "otherSeparators Bidirectional = [''::'', ''?'', ''???'', ''=='']"
  "otherSeparators MultiLine = [''::'', '':::'', ''???'', ''=='']"
  "otherSeparators MultiLineBidirectional = [''::'', '':::'', ''?'', ''=='']"
  by (simp_all add: otherSeparators_def CardType_values_def getSeparator_def CardType_defs)

lemma no_qmark_cleanText: "\<not> str_includes s ''?'' \<Longrightarrow> CHR ''?'' \<notin> set (cleanText s)"
  using set_cleanText [of s] by (auto simp: str_includes_single)

lemma detect_OneWay:
  assumes f: "freeOfOtherSeparators OneWay a" and b: "freeOfOtherSeparators OneWay b"
    and e: "\<not> endsWith (cleanText a) '':''" and s: "\<not> startsWith (cleanText b) '':''"
  shows "detectCardType (cleanText a @ ''::'' @ cleanText b) = Some OneWay"
proof -
  let ?r = "cleanText a @ ''::'' @ cleanText b"
  from f b have q: "CHR ''?'' \<notin> set (cleanText a)" "CHR ''?'' \<notin> set (cleanText b)"
    by (simp_all add: freeOfOtherSeparators_def otherSeparators_simps no_qmark_cleanText)
  have 1: "\<not> str_includes ?r ''???''"
    using q str_includes_set [of ?r "''???''"] by auto
  from f b have "\<not> str_includes a '':::''" "\<not> str_includes b '':::''"
    by (simp_all add: freeOfOtherSeparators_def otherSeparators_simps)
  then have "\<not> str_includes (cleanText a) '':::''" "\<not> str_includes (cleanText b) '':::''"
    by (auto dest!: str_includes_cleanText simp: isSpace_def)
  with e s have 2: "\<not> str_includes ?r '':::''"
    using str_includes_colon_junction [of "cleanText a" "cleanText b"]
    by (auto simp: endsWith_def startsWith_def)
  have 3: "str_includes ?r ''::''" unfolding str_includes_iff by blast
  show ?thesis using 1 2 3 by (simp add: detectCardType_def)
qed

lemma detect_Bidirectional:
  assumes f: "freeOfOtherSeparators Bidirectional a" and b: "freeOfOtherSeparators Bidirectional b"
  shows "detectCardType (cleanText a @ '':::'' @ cleanText b) = Some Bidirectional"
proof -
  let ?r = "cleanText a @ '':::'' @ cleanText b"
  from f b have q: "CHR ''?'' \<notin> set (cleanText a)" "CHR ''?'' \<notin> set (cleanText b)"
    by (simp_all add: freeOfOtherSeparators_def otherSeparators_simps no_qmark_cleanText)
  have 1: "\<not> str_includes ?r ''???''"
    using q str_includes_set [of ?r "''???''"] by auto
  have 3: "str_includes ?r '':::''" unfolding str_includes_iff by blast
  show ?thesis using 1 3 by (simp add: detectCardType_def)
qed

lemma str_includes_longer: "str_includes s (p @ q) \<Longrightarrow> str_includes s p"
  unfolding str_includes_iff by (metis append.assoc)

lemma detect_MultiLine:
  assumes f: "freeOfOtherSeparators MultiLine a" and b: "freeOfOtherSeparators MultiLine b"
    and e: "\<not> endsWith (cleanText a) ''??''"
  shows "detectCardType (cleanText a @ [CHR ''?'', CHR 0x0A] @ cleanText b) = Some MultiLine"
proof -
  let ?r = "cleanText a @ [CHR ''?'', CHR 0x0A] @ cleanText b"
  from f b have "\<not> str_includes a ''???''" "\<not> str_includes b ''???''"
    "\<not> str_includes a ''::''" "\<not> str_includes b ''::''"
    by (simp_all add: freeOfOtherSeparators_def otherSeparators_simps)
  then have n: "\<not> str_includes (cleanText a) ''???''" "\<not> str_includes (cleanText b) ''???''"
    "\<not> str_includes (cleanText a) ''::''" "\<not> str_includes (cleanText b) ''::''"
    by (auto dest!: str_includes_cleanText simp: isSpace_def)
  have 1: "\<not> str_includes ?r ''???''"
  proof
    assume "str_includes ?r ''???''"
    then have "str_includes ((cleanText a @ ''?'') @ CHR 0x0A # cleanText b) ''???''" by simp
    then have "str_includes (cleanText a @ ''?'') ''???'' \<or> str_includes (cleanText b) ''???''"
      by (rule str_includes_across_char) simp
    with n have "str_includes (cleanText a @ ''?'') ''???''" by simp
    then have "str_includes (cleanText a) ''???'' \<or> suffix ''??'' (cleanText a)"
      by (rule str_includes_qmark_junction)
    with n e show False by (simp add: endsWith_def)
  qed
  have 2: "\<not> str_includes ?r ''::''"
  proof
    assume "str_includes ?r ''::''"
    then have "str_includes (cleanText a @ CHR ''?'' # (CHR 0x0A # cleanText b)) ''::''" by simp
    then have "str_includes (cleanText a) ''::'' \<or> str_includes (CHR 0x0A # cleanText b) ''::''"
      by (rule str_includes_across_char) simp
    with n show False by simp
  qed
  have "\<not> str_includes ?r (''::'' @ '':'')"
    using 2 str_includes_longer [of ?r "''::''" "'':''"] by blast
  then have 4: "\<not> str_includes ?r '':::''" by simp
  have 3: "str_includes ?r ''?''" unfolding str_includes_iff by (metis append_Cons append_Nil)
  show ?thesis using 1 2 3 4 by (simp add: detectCardType_def)
qed

lemma detect_MultiLineBidirectional:
  "detectCardType (a @ [CHR ''?'', CHR ''?'', CHR ''?'', CHR 0x0A] @ b) = Some MultiLineBidirectional"
proof -
  have "a @ [CHR ''?'', CHR ''?'', CHR ''?'', CHR 0x0A] @ b = a @ ''???'' @ (CHR 0x0A # b)" by simp
  then have "str_includes (a @ [CHR ''?'', CHR ''?'', CHR ''?'', CHR 0x0A] @ b) ''???''"
    unfolding str_includes_iff by blast
  then show ?thesis by (simp add: detectCardType_def)
qed

text \<open>
  C4 (round trip), as amended. For a card of a recognised type other than cloze whose
  front and back are non-empty and contain no separator of another card type,
  \<open>detectCardType\<close> of the encoded card is the card's type, provided the junction builds
  no separator of higher priority: for a one-way card the cleaned front does not end with
  a colon and the cleaned back does not start with one, and for a multi-line card the
  cleaned front does not end with two question marks.
\<close>

theorem formatCard_detectCardType_roundtrip:
  assumes "type crd \<in> set CardType_values" and "type crd \<noteq> Cloze"
    and "front crd \<noteq> []" and "back_side crd \<noteq> []"
    and "freeOfOtherSeparators (type crd) (front crd)"
    and "freeOfOtherSeparators (type crd) (back_side crd)"
    and "type crd = OneWay \<longrightarrow>
           \<not> endsWith (cleanText (front crd)) '':'' \<and> \<not> startsWith (cleanText (back_side crd)) '':''"
    and "type crd = MultiLine \<longrightarrow> \<not> endsWith (cleanText (front crd)) ''??''"
  shows "\<exists>f. formatCard crd = Inr f \<and> detectCardType (content f) = Some (type crd)"
proof -
  from assms(1,2) consider "type crd = OneWay" | "type crd = Bidirectional"
    | "type crd = MultiLine" | "type crd = MultiLineBidirectional"
    by (auto simp: CardType_values_def)
  then show ?thesis
  proof cases
    case 1
    with assms show ?thesis
      using detect_OneWay [of "front crd" "back_side crd"]
      by (simp add: formatCard_def formatOneWayCard_def)
  next
    case 2
    with assms show ?thesis
      using detect_Bidirectional [of "front crd" "back_side crd"]
      by (simp add: formatCard_def formatBidirectionalCard_def CardType_defs)
  next
    case 3
    with assms show ?thesis
      using detect_MultiLine [of "front crd" "back_side crd"]
      by (simp add: formatCard_def formatMultiLineCard_def CardType_defs)
  next
    case 4
    with assms show ?thesis
      using detect_MultiLineBidirectional [of "cleanText (front crd)" "cleanText (back_side crd)"]
      by (simp add: formatCard_def formatMultiLineBidirectionalCard_def CardType_defs)
  qed
qed

text \<open>
  The amended round trip at a one-way card and at a multi-line card whose front ends
  with a single question mark.
\<close>

theorem formatCard_detectCardType_roundtrip_witness:
  "(\<exists>f. formatCard \<lparr>front = ''Term'', back_side = ''Def'', type = OneWay, tags = None\<rparr> = Inr f
        \<and> detectCardType (content f) = Some OneWay) \<and>
   (\<exists>f. formatCard \<lparr>front = ''Why?'', back_side = ''So'', type = MultiLine, tags = None\<rparr> = Inr f
        \<and> detectCardType (content f) = Some MultiLine)"
proof
  have c: "\<not> suffix '':'' ''Term''" "\<not> suffix ''??'' ''Why?''" by (auto simp: suffix_def Cons_eq_append_conv)
  show "\<exists>f. formatCard \<lparr>front = ''Term'', back_side = ''Def'', type = OneWay, tags = None\<rparr> = Inr f
        \<and> detectCardType (content f) = Some OneWay"
    using formatCard_detectCardType_roundtrip
      [of "\<lparr>front = ''Term'', back_side = ''Def'', type = OneWay, tags = None\<rparr>"] c
    by (simp add: cleanText_def trim_def isSpace_def freeOfOtherSeparators_def otherSeparators_simps
          CardType_values_def endsWith_def startsWith_def CardType_distinct)
  show "\<exists>f. formatCard \<lparr>front = ''Why?'', back_side = ''So'', type = MultiLine, tags = None\<rparr> = Inr f
        \<and> detectCardType (content f) = Some MultiLine"
    using formatCard_detectCardType_roundtrip
      [of "\<lparr>front = ''Why?'', back_side = ''So'', type = MultiLine, tags = None\<rparr>"] c
    by (simp add: cleanText_def trim_def isSpace_def freeOfOtherSeparators_def otherSeparators_simps
          CardType_values_def endsWith_def startsWith_def CardType_distinct)
qed

text \<open>
  C4 as stated fails. The one-way card with front \<open>a:\<close> and back \<open>b\<close> contains no
  separator of another type, is encoded as \<open>a:::b\<close> and is detected as bidirectional;
  the multi-line card with front \<open>a??\<close> is encoded with three question marks and is
  detected as multi-line bidirectional.
\<close>

theorem formatCard_detectCardType_roundtrip_counterexample:
  "OneWay \<noteq> Cloze \<and> ''a:'' \<noteq> [] \<and> ''b'' \<noteq> [] \<and>
   freeOfOtherSeparators OneWay ''a:'' \<and> freeOfOtherSeparators OneWay ''b'' \<and>
   formatCard \<lparr>front = ''a:'', back_side = ''b'', type = OneWay, tags = None\<rparr>
     = Inr \<lparr>content = ''a:::b'', ftags = []\<rparr> \<and>
   detectCardType ''a:::b'' = Some Bidirectional \<and> Bidirectional \<noteq> OneWay \<and>
   MultiLine \<noteq> Cloze \<and> ''a??'' \<noteq> [] \<and>
   freeOfOtherSeparators MultiLine ''a??'' \<and> freeOfOtherSeparators MultiLine ''b'' \<and>
   formatCard \<lparr>front = ''a??'', back_side = ''b'', type = MultiLine, tags = None\<rparr>
     = Inr \<lparr>content = [CHR ''a'', CHR ''?'', CHR ''?'', CHR ''?'', CHR 0x0A, CHR ''b''], ftags = []\<rparr> \<and>
   detectCardType [CHR ''a'', CHR ''?'', CHR ''?'', CHR ''?'', CHR 0x0A, CHR ''b'']
     = Some MultiLineBidirectional \<and> MultiLineBidirectional \<noteq> MultiLine"
  by (simp add: cleanText_def trim_def isSpace_def formatCard_def formatOneWayCard_def
      formatMultiLineCard_def detectCardType_def freeOfOtherSeparators_def otherSeparators_simps
      CardType_distinct)

text \<open>
  C5 (priority order of type detection), as amended. Containment is stated as a
  decomposition of the markup: three question marks win, then three colons, then two
  colons, then a question mark, then two equals signs together with a non-empty span
  between two pairs of equals signs whose text contains no equals sign; otherwise nothing
  is detected.
\<close>

theorem detectCardType_priority:
  "detectCardType s =
     (if (\<exists>u v. s = u @ ''???'' @ v) then Some MultiLineBidirectional
      else if (\<exists>u v. s = u @ '':::'' @ v) then Some Bidirectional
      else if (\<exists>u v. s = u @ ''::'' @ v) then Some OneWay
      else if (\<exists>u v. s = u @ ''?'' @ v) then Some MultiLine
      else if (\<exists>u v. s = u @ ''=='' @ v) \<and>
              (\<exists>u m v. s = u @ ''=='' @ m @ ''=='' @ v \<and> m \<noteq> [] \<and> CHR ''='' \<notin> set m)
           then Some Cloze
      else None)"
  unfolding detectCardType_def str_includes_iff matchClozeSpan_iff ..

text \<open>
  C5 as stated fails: the markup \<open>Energy ==E=mc2== law\<close> contains none of the other
  separators, contains two equals signs and has the non-empty span \<open>E=mc2\<close> between two
  pairs of equals signs, and yet nothing is detected, because the span has an equals sign
  inside.
\<close>

theorem detectCardType_span_counterexample:
  "''Energy ==E=mc2== law'' = ''Energy '' @ ''=='' @ ''E=mc2'' @ ''=='' @ '' law'' \<and>
   ''E=mc2'' \<noteq> [] \<and>
   \<not> str_includes ''Energy ==E=mc2== law'' ''???'' \<and>
   \<not> str_includes ''Energy ==E=mc2== law'' '':::'' \<and>
   \<not> str_includes ''Energy ==E=mc2== law'' ''::'' \<and>
   \<not> str_includes ''Energy ==E=mc2== law'' ''?'' \<and>
   str_includes ''Energy ==E=mc2== law'' ''=='' \<and>
   detectCardType ''Energy ==E=mc2== law'' = None"
  by (simp add: detectCardType_def clozeSpanAt_def)

section \<open>Card validation\<close>

lemma trim_empty_iff: "trim s = [] \<longleftrightarrow> (\<forall>c\<in>set s. isSpace c)"
proof
  assume "trim s = []"
  then have a: "\<forall>c\<in>set (dropWhile isSpace s). isSpace c"
    by (simp add: trim_def dropWhile_eq_Nil_conv)
  have "dropWhile isSpace s = []"
  proof (rule ccontr)
    assume n: "dropWhile isSpace s \<noteq> []"
    then have "\<not> isSpace (hd (dropWhile isSpace s))" by (rule hd_dropWhile)
    moreover from n have "hd (dropWhile isSpace s) \<in> set (dropWhile isSpace s)" by simp
    ultimately show False using a by blast
  qed
  then show "\<forall>c\<in>set s. isSpace c" by (simp add: dropWhile_eq_Nil_conv)
next
  assume "\<forall>c\<in>set s. isSpace c"
  then show "trim s = []"
    by (auto simp: trim_def dropWhile_eq_Nil_conv dest: set_dropWhileD)
qed

lemma tagErrors_empty_iff: "tagErrors tag = [] \<longleftrightarrow> prefix ''#'' tag \<and> CHR '' '' \<notin> set tag"
  by (simp add: tagErrors_def startsWith_def str_includes_single)

lemma matchClozeSpan_includes: "matchClozeSpan s \<Longrightarrow> str_includes s ''==''"
  unfolding matchClozeSpan_iff str_includes_iff by blast

text \<open>
  C7 (per-card validation), as amended. A card is rejected exactly when its front or its
  back consists of white space only (or is empty), or its type is not a member of
  \<open>CardType\<close>, or it is a cloze card whose front has no non-empty span between two
  pairs of equals signs whose text contains no equals sign (so \<open>====\<close> is rejected), or
  one of its tags does not start with \<open>#\<close> or contains a space character. The tag
  \<open>biology\<close> is rejected with the "must start with #" error, \<open>#flash cards\<close> with the
  "cannot contain spaces" error, and \<open>#biology\<close> is accepted.
\<close>

theorem validateRawFlashcard_rejects_iff:
  "(\<not> isValid (validateRawFlashcard crd) \<longleftrightarrow>
      (\<forall>c\<in>set (front crd). isSpace c) \<or> (\<forall>c\<in>set (back_side crd). isSpace c) \<or>
      type crd \<notin> set CardType_values \<or>
      (type crd = Cloze \<and>
       \<not> (\<exists>u m v. front crd = u @ ''=='' @ m @ ''=='' @ v \<and> m \<noteq> [] \<and> CHR ''='' \<notin> set m)) \<or>
      (\<exists>tag \<in> set (case tags crd of None \<Rightarrow> [] | Some ts \<Rightarrow> ts).
          \<not> prefix ''#'' tag \<or> CHR '' '' \<in> set tag)) \<and>
   \<not> isValid (validateRawFlashcard
                 \<lparr>front = ''===='', back_side = ''y'', type = Cloze, tags = None\<rparr>) \<and>
   validateRawFlashcard \<lparr>front = ''Q'', back_side = ''A'', type = OneWay, tags = Some [''biology'']\<rparr>
     = \<lparr>isValid = False,
        errors = [''Tag '' @ [CHR 0x22] @ ''biology'' @ [CHR 0x22] @ '' must start with #'']\<rparr> \<and>
   validateRawFlashcard \<lparr>front = ''Q'', back_side = ''A'', type = OneWay, tags = Some [''#flash cards'']\<rparr>
     = \<lparr>isValid = False,
        errors = [''Tag '' @ [CHR 0x22] @ ''#flash cards'' @ [CHR 0x22] @ '' cannot contain spaces'']\<rparr> \<and>
   validateRawFlashcard \<lparr>front = ''Q'', back_side = ''A'', type = OneWay, tags = Some [''#biology'']\<rparr>
     = \<lparr>isValid = True, errors = []\<rparr>"
proof -
  have 1: "\<not> isValid (validateRawFlashcard crd) \<longleftrightarrow>
      (\<forall>c\<in>set (front crd). isSpace c) \<or> (\<forall>c\<in>set (back_side crd). isSpace c) \<or>
      type crd \<notin> set CardType_values \<or>
      (type crd = Cloze \<and>
       \<not> (\<exists>u m v. front crd = u @ ''=='' @ m @ ''=='' @ v \<and> m \<noteq> [] \<and> CHR ''='' \<notin> set m)) \<or>
      (\<exists>tag \<in> set (case tags crd of None \<Rightarrow> [] | Some ts \<Rightarrow> ts).
          \<not> prefix ''#'' tag \<or> CHR '' '' \<in> set tag)"
    unfolding matchClozeSpan_iff [symmetric] trim_empty_iff [symmetric]
    using matchClozeSpan_includes [of "front crd"]
    by (auto simp: validateRawFlashcard_def Let_def tagErrors_empty_iff trim_def split: option.splits)
  have 2: "\<not> isValid (validateRawFlashcard
                 \<lparr>front = ''===='', back_side = ''y'', type = Cloze, tags = None\<rparr>)"
    by (simp add: validateRawFlashcard_def Let_def clozeSpanAt_def)
  have 3: "validateRawFlashcard \<lparr>front = ''Q'', back_side = ''A'', type = OneWay, tags = Some [''biology'']\<rparr>
     = \<lparr>isValid = False,
        errors = [''Tag '' @ [CHR 0x22] @ ''biology'' @ [CHR 0x22] @ '' must start with #'']\<rparr>"
    by (simp add: validateRawFlashcard_def Let_def tagErrors_def startsWith_def trim_def
        isSpace_def CardType_values_def CardType_distinct)
  have 4: "validateRawFlashcard \<lparr>front = ''Q'', back_side = ''A'', type = OneWay, tags = Some [''#flash cards'']\<rparr>
     = \<lparr>isValid = False,
        errors = [''Tag '' @ [CHR 0x22] @ ''#flash cards'' @ [CHR 0x22] @ '' cannot contain spaces'']\<rparr>"
    by (simp add: validateRawFlashcard_def Let_def tagErrors_def startsWith_def trim_def
        isSpace_def CardType_values_def CardType_distinct)
  have 5: "validateRawFlashcard \<lparr>front = ''Q'', back_side = ''A'', type = OneWay, tags = Some [''#biology'']\<rparr>
     = \<lparr>isValid = True, errors = []\<rparr>"
    by (simp add: validateRawFlashcard_def Let_def tagErrors_def startsWith_def trim_def
        isSpace_def CardType_values_def CardType_distinct)
  show ?thesis using 1 2 3 4 5 by blast
qed

text \<open>
  The characterisation at a cloze card without a span, which it rejects, and at a card
  with the tag \<open>#biology\<close>, which it accepts.
\<close>

theorem validateRawFlashcard_rejects_iff_witness:
  "\<not> isValid (validateRawFlashcard
      \<lparr>front = ''Plants use photosynthesis'', back_side = ''A'', type = Cloze, tags = None\<rparr>) \<and>
   isValid (validateRawFlashcard
      \<lparr>front = ''Q'', back_side = ''A'', type = OneWay, tags = Some [''#biology'']\<rparr>)"
proof
  let ?c = "\<lparr>front = ''Plants use photosynthesis'', back_side = ''A'', type = Cloze, tags = None\<rparr>"
  have "\<not> (\<exists>u m v. front ?c = u @ ''=='' @ m @ ''=='' @ v \<and> m \<noteq> [] \<and> CHR ''='' \<notin> set m)"
  proof
    assume "\<exists>u m v. front ?c = u @ ''=='' @ m @ ''=='' @ v \<and> m \<noteq> [] \<and> CHR ''='' \<notin> set m"
    then obtain u m v where "front ?c = u @ ''=='' @ m @ ''=='' @ v" by blast
    then have "CHR ''='' \<in> set (front ?c)" by simp
    then show False by simp
  qed
  then show "\<not> isValid (validateRawFlashcard ?c)"
    using validateRawFlashcard_rejects_iff [of ?c] by simp
next
  let ?d = "\<lparr>front = ''Q'', back_side = ''A'', type = OneWay, tags = Some [''#biology'']\<rparr>"
  have "\<not> ((\<forall>c\<in>set (front ?d). isSpace c) \<or> (\<forall>c\<in>set (back_side ?d). isSpace c) \<or>
      type ?d \<notin> set CardType_values \<or>
      (type ?d = Cloze \<and>
       \<not> (\<exists>u m v. front ?d = u @ ''=='' @ m @ ''=='' @ v \<and> m \<noteq> [] \<and> CHR ''='' \<notin> set m)) \<or>
      (\<exists>tag \<in> set (case tags ?d of None \<Rightarrow> [] | Some ts \<Rightarrow> ts).
          \<not> prefix ''#'' tag \<or> CHR '' '' \<in> set tag))"
    by (simp add: isSpace_def CardType_values_def CardType_distinct)
  then show "isValid (validateRawFlashcard ?d)"
    using validateRawFlashcard_rejects_iff [of ?d] by blast
qed

text \<open>
  C7 as stated fails twice. On the tag rule: a tag with two leading \<open>#\<close> and a tag with
  a tab inside are both accepted, since the code only asks for a first character \<open>#\<close>
  and for the absence of the space character. On the cloze rule: the cloze card with
  front \<open>Energy ==E=mc2== law\<close> has the non-empty span \<open>E=mc2\<close> between two pairs of
  equals signs and is rejected, because the span has an equals sign inside.
\<close>

theorem validateRawFlashcard_rule_counterexample:
  "prefix ''##'' ''##biology'' \<and>
   isValid (validateRawFlashcard
      \<lparr>front = ''Q'', back_side = ''A'', type = OneWay, tags = Some [''##biology'']\<rparr>) \<and>
   isSpace (CHR 0x09) \<and>
   isValid (validateRawFlashcard
      \<lparr>front = ''Q'', back_side = ''A'', type = OneWay,
       tags = Some [[CHR ''#'', CHR ''a'', CHR 0x09, CHR ''b'']]\<rparr>) \<and>
   ''Energy ==E=mc2== law'' = ''Energy '' @ ''=='' @ ''E=mc2'' @ ''=='' @ '' law'' \<and>
   ''E=mc2'' \<noteq> [] \<and>
   validateRawFlashcard
      \<lparr>front = ''Energy ==E=mc2== law'', back_side = ''A'', type = Cloze, tags = None\<rparr>
     = \<lparr>isValid = False,
        errors = [''Cloze cards must contain text wrapped in == markers'']\<rparr>"
  by (simp add: validateRawFlashcard_def Let_def tagErrors_def startsWith_def trim_def
      isSpace_def CardType_values_def CardType_distinct clozeSpanAt_def)

section \<open>Processing the model response\<close>

lemmas card_eval = validateRawFlashcard_def Let_def tagErrors_def startsWith_def trim_def
  isSpace_def CardType_values_def CardType_distinct

lemma snd_validateCards:
  "snd (validateCards options i cs) =
     map (\<lambda>(k, c). cardError k (validateRawFlashcard c))
         (filter (\<lambda>(k, c). \<not> isValid (validateRawFlashcard c)) (zip [i..<i + length cs] cs))"
proof (induction cs arbitrary: i)
  case Nil
  then show ?case by simp
next
  case (Cons c cs)
  have z: "zip [i..<i + length (c # cs)] (c # cs) = (i, c) # zip [Suc i..<Suc i + length cs] cs"
    by (simp add: upt_conv_Cons del: upt_Suc)
  obtain v e where ve: "validateCards options (Suc i) cs = (v, e)" by force
  with Cons.IH [of "Suc i"] have e: "e = map (\<lambda>(k, c). cardError k (validateRawFlashcard c))
         (filter (\<lambda>(k, c). \<not> isValid (validateRawFlashcard c)) (zip [Suc i..<Suc i + length cs] cs))"
    by simp
  show ?case
    unfolding z using ve e
    by (simp add: Let_def split: option.splits list.splits)
qed

lemma fst_validateCards_empty:
  assumes "\<forall>c\<in>set cs. \<not> isValid (validateRawFlashcard c) \<or>
             (type c \<notin> set (cardTypes options) \<and>
              (case cardTypes options of [] \<Rightarrow> None | t # _ \<Rightarrow> convertCardType c t) = None)"
  shows "fst (validateCards options i cs) = []"
  using assms
proof (induction cs arbitrary: i)
  case Nil
  then show ?case by simp
next
  case (Cons c cs)
  then have "fst (validateCards options (Suc i) cs) = []" by simp
  then obtain e where ve: "validateCards options (Suc i) cs = ([], e)"
    by (cases "validateCards options (Suc i) cs") auto
  from Cons.prems have "\<not> isValid (validateRawFlashcard c) \<or>
             (type c \<notin> set (cardTypes options) \<and>
              (case cardTypes options of [] \<Rightarrow> None | t # _ \<Rightarrow> convertCardType c t) = None)"
    by simp
  with ve show ?case
    by (auto simp: Let_def)
qed

lemma processLLMResponse_none_kept:
  assumes "cards response \<noteq> []" and "fst (validateCards options 0 (cards response)) = []"
  shows "fst (processLLMResponse response options) =
           failure (''No valid flashcards could be generated. Errors: '' @
                    join ''; '' (snd (validateCards options 0 (cards response))))"
  using assms
  by (cases "validateCards options 0 (cards response)") (simp add: processLLMResponse_def)

lemma processLLMResponse_all_dropped:
  assumes "cards response \<noteq> []"
    and "\<forall>c\<in>set (cards response). \<not> isValid (validateRawFlashcard c) \<or>
           (type c \<notin> set (cardTypes options) \<and>
            (case cardTypes options of [] \<Rightarrow> None | t # _ \<Rightarrow> convertCardType c t) = None)"
  shows "fst (processLLMResponse response options) =
           failure (''No valid flashcards could be generated. Errors: '' @
                 join ''; ''
                   (map (\<lambda>(k, c). cardError k (validateRawFlashcard c))
                        (filter (\<lambda>(k, c). \<not> isValid (validateRawFlashcard c))
                                (zip [0..<length (cards response)] (cards response)))))"
proof -
  have k: "fst (validateCards options 0 (cards response)) = []"
    using assms(2) by (rule fst_validateCards_empty)
  have r: "fst (processLLMResponse response options) =
           failure (''No valid flashcards could be generated. Errors: '' @
                    join ''; '' (snd (validateCards options 0 (cards response))))"
    using assms(1) k by (rule processLLMResponse_none_kept)
  show ?thesis
    unfolding r snd_validateCards by simp
qed

lemma convertCardType_Cloze_None:
  "\<not> matchClozeSpan (front c) \<Longrightarrow> convertCardType c Cloze = None"
  by (simp add: convertCardType_def CardType_distinct)

text \<open>
  C3 (no card survives), as amended. When the batch is not empty and every card is either
  invalid or valid but of a type that is not allowed and cannot be converted to the first
  allowed type, processing fails: \<open>success\<close> is false and the error message is
  "No valid flashcards could be generated. Errors: " followed by the error lines of the
  cards that failed per-card validation, in order, joined by "; ". A valid card that is
  dropped by the type conversion adds no line. With \<open>cardTypes = [Cloze]\<close> and a single
  valid card that is not a cloze card and has no cloze span, the message is the bare
  "No valid flashcards could be generated. Errors: ".
\<close>

theorem processLLMResponse_no_survivors:
  "(cards response \<noteq> [] \<and>
    (\<forall>c\<in>set (cards response). \<not> isValid (validateRawFlashcard c) \<or>
           (type c \<notin> set (cardTypes options) \<and>
            (case cardTypes options of [] \<Rightarrow> None | t # _ \<Rightarrow> convertCardType c t) = None))
    \<longrightarrow> success (fst (processLLMResponse response options)) = False \<and>
         error (fst (processLLMResponse response options)) =
           Some (''No valid flashcards could be generated. Errors: '' @
                 join ''; ''
                   (map (\<lambda>(k, c). cardError k (validateRawFlashcard c))
                        (filter (\<lambda>(k, c). \<not> isValid (validateRawFlashcard c))
                                (zip [0..<length (cards response)] (cards response)))))) \<and>
   (cards response = [crd] \<and> cardTypes options = [Cloze] \<and>
    isValid (validateRawFlashcard crd) \<and> type crd \<noteq> Cloze \<and>
    \<not> (\<exists>u m v. front crd = u @ ''=='' @ m @ ''=='' @ v \<and> m \<noteq> [] \<and> CHR ''='' \<notin> set m)
    \<longrightarrow> success (fst (processLLMResponse response options)) = False \<and>
         error (fst (processLLMResponse response options)) =
           Some ''No valid flashcards could be generated. Errors: '')"
proof (intro conjI impI)
  assume a: "cards response \<noteq> [] \<and>
    (\<forall>c\<in>set (cards response). \<not> isValid (validateRawFlashcard c) \<or>
           (type c \<notin> set (cardTypes options) \<and>
            (case cardTypes options of [] \<Rightarrow> None | t # _ \<Rightarrow> convertCardType c t) = None))"
  then have r: "fst (processLLMResponse response options) =
           failure (''No valid flashcards could be generated. Errors: '' @
                 join ''; ''
                   (map (\<lambda>(k, c). cardError k (validateRawFlashcard c))
                        (filter (\<lambda>(k, c). \<not> isValid (validateRawFlashcard c))
                                (zip [0..<length (cards response)] (cards response)))))"
    using processLLMResponse_all_dropped [of response options] by blast
  show "success (fst (processLLMResponse response options)) = False"
    unfolding r by (simp add: failure_def)
  show "error (fst (processLLMResponse response options)) =
           Some (''No valid flashcards could be generated. Errors: '' @
                 join ''; ''
                   (map (\<lambda>(k, c). cardError k (validateRawFlashcard c))
                        (filter (\<lambda>(k, c). \<not> isValid (validateRawFlashcard c))
                                (zip [0..<length (cards response)] (cards response)))))"
    unfolding r by (simp add: failure_def)
next
  assume b: "cards response = [crd] \<and> cardTypes options = [Cloze] \<and>
    isValid (validateRawFlashcard crd) \<and> type crd \<noteq> Cloze \<and>
    \<not> (\<exists>u m v. front crd = u @ ''=='' @ m @ ''=='' @ v \<and> m \<noteq> [] \<and> CHR ''='' \<notin> set m)"
  then have "\<not> matchClozeSpan (front crd)" unfolding matchClozeSpan_iff by blast
  then have "convertCardType crd Cloze = None" by (rule convertCardType_Cloze_None)
  with b have r: "fst (processLLMResponse response options) =
           failure (''No valid flashcards could be generated. Errors: '' @
                 join ''; ''
                   (map (\<lambda>(k, c). cardError k (validateRawFlashcard c))
                        (filter (\<lambda>(k, c). \<not> isValid (validateRawFlashcard c))
                                (zip [0..<length (cards response)] (cards response)))))"
    using processLLMResponse_all_dropped [of response options] by simp
  show "success (fst (processLLMResponse response options)) = False"
    unfolding r by (simp add: failure_def)
  show "error (fst (processLLMResponse response options)) =
           Some ''No valid flashcards could be generated. Errors: ''"
    unfolding r using b by (simp add: failure_def)
qed

text \<open>
  The theorem at a batch of one invalid and one dropped card, and at the single dropped
  card, both with \<open>cardTypes = [Cloze]\<close>.
\<close>

theorem processLLMResponse_no_survivors_witness:
  "error (fst (processLLMResponse
       \<lparr>cards = [\<lparr>front = [], back_side = ''A'', type = OneWay, tags = None\<rparr>,
                 \<lparr>front = ''Q'', back_side = ''A'', type = OneWay, tags = None\<rparr>],
        respMetadata = None\<rparr>
       \<lparr>maxCards = None, cardTypes = [Cloze], customPrompt = None, optTags = None\<rparr>))
     = Some (''No valid flashcards could be generated. Errors: '' @
             ''Card 1: Front content is required and cannot be empty'') \<and>
   error (fst (processLLMResponse
       \<lparr>cards = [\<lparr>front = ''Q'', back_side = ''A'', type = OneWay, tags = None\<rparr>],
        respMetadata = None\<rparr>
       \<lparr>maxCards = None, cardTypes = [Cloze], customPrompt = None, optTags = None\<rparr>))
     = Some ''No valid flashcards could be generated. Errors: ''"
proof
  let ?bad = "\<lparr>front = [], back_side = ''A'', type = OneWay, tags = None\<rparr>"
  let ?ok = "\<lparr>front = ''Q'', back_side = ''A'', type = OneWay, tags = None\<rparr>"
  let ?o = "\<lparr>maxCards = None, cardTypes = [Cloze], customPrompt = None, optTags = None\<rparr>"
  have v: "\<not> isValid (validateRawFlashcard ?bad)" "isValid (validateRawFlashcard ?ok)"
    by (simp_all add: card_eval)
  have e: "errors (validateRawFlashcard ?bad) = [''Front content is required and cannot be empty'']"
    by (simp add: card_eval)
  have c: "convertCardType ?ok Cloze = None"
    by (simp add: convertCardType_def CardType_distinct clozeSpanAt_def)
  show "error (fst (processLLMResponse \<lparr>cards = [?bad, ?ok], respMetadata = None\<rparr> ?o))
     = Some (''No valid flashcards could be generated. Errors: '' @
             ''Card 1: Front content is required and cannot be empty'')"
    using processLLMResponse_no_survivors
            [of "\<lparr>cards = [?bad, ?ok], respMetadata = None\<rparr>" ?o ?ok] v e c
    by (simp add: cardError_def showNat.simps digitChar_def CardType_distinct)
  have n: "\<not> (\<exists>u m v. front ?ok = u @ ''=='' @ m @ ''=='' @ v \<and> m \<noteq> [] \<and> CHR ''='' \<notin> set m)"
  proof
    assume "\<exists>u m v. front ?ok = u @ ''=='' @ m @ ''=='' @ v \<and> m \<noteq> [] \<and> CHR ''='' \<notin> set m"
    then obtain u m v where "front ?ok = u @ ''=='' @ m @ ''=='' @ v" by blast
    then have "CHR ''='' \<in> set (front ?ok)" by simp
    then show False by simp
  qed
  show "error (fst (processLLMResponse \<lparr>cards = [?ok], respMetadata = None\<rparr> ?o))
     = Some ''No valid flashcards could be generated. Errors: ''"
    using processLLMResponse_no_survivors
            [of "\<lparr>cards = [?ok], respMetadata = None\<rparr>" ?o ?ok] v n
    by (simp add: CardType_distinct)
qed

text \<open>
  C3 as stated fails: the single valid one-way card is dropped because it cannot become a
  cloze card, and the error message names no reason for it.
\<close>

theorem processLLMResponse_dropped_card_counterexample:
  "isValid (validateRawFlashcard \<lparr>front = ''Q'', back_side = ''A'', type = OneWay, tags = None\<rparr>) \<and>
   convertCardType \<lparr>front = ''Q'', back_side = ''A'', type = OneWay, tags = None\<rparr> Cloze = None \<and>
   fst (processLLMResponse
       \<lparr>cards = [\<lparr>front = ''Q'', back_side = ''A'', type = OneWay, tags = None\<rparr>],
        respMetadata = None\<rparr>
       \<lparr>maxCards = None, cardTypes = [Cloze], customPrompt = None, optTags = None\<rparr>)
     = \<lparr>success = False, formattedCards = None, rawCards = None,
        error = Some ''No valid flashcards could be generated. Errors: '', metadata = None\<rparr>"
  by (simp add: processLLMResponse_def card_eval convertCardType_def failure_def clozeSpanAt_def)

section \<open>Generation entry point\<close>

lemma validateInput_rejects:
  assumes "length (trim cnt) < 10 \<or> cardTypes options = [] \<or>
           (\<exists>t\<in>set (cardTypes options). t \<notin> set CardType_values)"
  shows "\<not> inputValid (validateInput cnt options) \<and> inputError (validateInput cnt options) \<noteq> None"
proof -
  have "(\<exists>t\<in>set (cardTypes options). t \<notin> set CardType_values) \<Longrightarrow>
        filter (\<lambda>t. t \<notin> set CardType_values) (cardTypes options) \<noteq> []"
    by (simp add: filter_empty_conv)
  with assms show ?thesis
    by (auto simp: validateInput_def split: list.splits)
qed

text \<open>On accepted input the model backend is called once, with the content and options.\<close>

lemma generateFlashcards_calls_provider_example:
  "providerCalls (snd (generateFlashcards (\<lambda>c opts. Inr \<lparr>cards = [], respMetadata = None\<rparr>) ''What is the capital of France''
       \<lparr>maxCards = None, cardTypes = [OneWay], customPrompt = None, optTags = None\<rparr>)) = [(''What is the capital of France'',
       \<lparr>maxCards = None, cardTypes = [OneWay], customPrompt = None, optTags = None\<rparr>)]"
  by (simp add: generateFlashcards_def Let_def validateInput_def trim_def isSpace_def CardType_values_def processLLMResponse_def failure_def)

text \<open>
  C6 (rejection before any model call). For every options value and every backend, when the
  trimmed content is empty or shorter than the minimum of ten characters, or the list of
  card types is empty, or it contains a string that is no \<open>CardType\<close>, the result has
  \<open>success = false\<close> and an error message, and the backend's \<open>generateFlashcards\<close> is
  not called.
\<close>

theorem generateFlashcards_rejects_before_provider:
  assumes "length (trim cnt) < 10 \<or> cardTypes options = [] \<or>
           (\<exists>t\<in>set (cardTypes options). t \<notin> set CardType_values)"
  shows "success (fst (generateFlashcards provider cnt options)) = False \<and>
         error (fst (generateFlashcards provider cnt options)) \<noteq> None \<and>
         providerCalls (snd (generateFlashcards provider cnt options)) = []"
  using validateInput_rejects [OF assms]
  by (simp add: generateFlashcards_def Let_def)

text \<open>The theorem at empty content.\<close>

theorem generateFlashcards_rejects_before_provider_witness:
  "success (fst (generateFlashcards (\<lambda>c opts. Inr \<lparr>cards = [], respMetadata = None\<rparr>) []
       \<lparr>maxCards = None, cardTypes = [OneWay], customPrompt = None, optTags = None\<rparr>)) = False \<and>
   error (fst (generateFlashcards (\<lambda>c opts. Inr \<lparr>cards = [], respMetadata = None\<rparr>) []
       \<lparr>maxCards = None, cardTypes = [OneWay], customPrompt = None, optTags = None\<rparr>)) \<noteq> None \<and>
   providerCalls (snd (generateFlashcards (\<lambda>c opts. Inr \<lparr>cards = [], respMetadata = None\<rparr>) []
       \<lparr>maxCards = None, cardTypes = [OneWay], customPrompt = None, optTags = None\<rparr>)) = []"
  using generateFlashcards_rejects_before_provider
    [of "[]" "\<lparr>maxCards = None, cardTypes = [OneWay], customPrompt = None, optTags = None\<rparr>"
        "\<lambda>c opts. Inr \<lparr>cards = [], respMetadata = None\<rparr>"]
  by (simp add: trim_def)

section \<open>Chunking\<close>

text \<open>
  Without overlap the loop returns the windows, and a text that fits in one window is
  returned whole.
\<close>

lemma chunkContent_without_overlap_example:
  "chunkContent ''a b c d e'' 2 0 = Some [''a b'', ''c d'', ''e'']"
  by (simp add: chunkContent_def chunkLoop.simps slice_def isSpace_def Let_def)

lemma chunkContent_short_example:
  "chunkContent ''a b c'' 3 1 = Some [''a b c'']"
  by (simp add: chunkContent_def isSpace_def)

lemma chunkLoop_returns_only_without_overlap:
  assumes r: "chunkLoop words chunkSize overlapSize startIndex chunks = Some result"
  shows "\<not> (0 < overlapSize \<and> startIndex < int (length words))"
proof (rule chunkLoop.raw_induct
         [where P = "\<lambda>w sz ov s c y. \<not> (0 < ov \<and> s < int (length w))", OF _ r])
  fix loop :: "string list \<Rightarrow> int \<Rightarrow> int \<Rightarrow> int \<Rightarrow> string list \<Rightarrow> string list option"
    and w sz ov s c y
  assume IH: "\<And>w sz ov s c y. loop w sz ov s c = Some y \<Longrightarrow> \<not> (0 < ov \<and> s < int (length w))"
  assume step: "(if s < int (length w)
      then let endIndex = min (s + sz) (int (length w));
               chunk = join '' '' (slice w s endIndex);
               pushed = c @ [chunk]; nextIndex = endIndex - ov
           in if int (length w) \<le> nextIndex then Some pushed
              else loop w sz ov nextIndex pushed
      else Some c) = Some y"
  show "\<not> (0 < ov \<and> s < int (length w))"
  proof
    assume a: "0 < ov \<and> s < int (length w)"
    let ?e = "min (s + sz) (int (length w))"
    have n: "?e - ov < int (length w)" using a by linarith
    with a step have "loop w sz ov (?e - ov) (c @ [join '' '' (slice w s ?e)]) = Some y"
      by (simp add: Let_def)
    then have "\<not> (0 < ov \<and> ?e - ov < int (length w))" by (rule IH)
    with a n show False by simp
  qed
qed

lemma chunkLoop_never_returns:
  "0 < overlapSize \<Longrightarrow> startIndex < int (length words) \<Longrightarrow>
     chunkLoop words chunkSize overlapSize startIndex chunks = None"
  using chunkLoop_returns_only_without_overlap [of words chunkSize overlapSize startIndex chunks]
  by (cases "chunkLoop words chunkSize overlapSize startIndex chunks") auto

text \<open>
  C1 (chunking terminates and covers the text): the code does not return. For a text of
  more words than \<open>chunkSize\<close> and an overlap with \<open>0 < overlapSize < chunkSize\<close>, the
  window that reaches the end of the word list sets the start index to the number of
  words minus \<open>overlapSize\<close>, which is still below the number of words; the check
  \<open>startIndex >= words.length\<close> fails, and the same last window is pushed again
  without end.
\<close>

theorem chunkContent_never_returns:
  assumes "0 < overlapSize" and "overlapSize < chunkSize"
    and "chunkSize < int (length (splitWs cnt))"
  shows "chunkContent cnt chunkSize overlapSize = None"
proof -
  from assms have "0 < int (length (splitWs cnt))" by linarith
  with assms(1) have "chunkLoop (splitWs cnt) chunkSize overlapSize 0 [] = None"
    by (rule chunkLoop_never_returns)
  with assms(3) show ?thesis by (simp add: chunkContent_def Let_def)
qed

text \<open>Three words, a window of two words and an overlap of one word.\<close>

theorem chunkContent_never_returns_witness:
  "chunkContent ''a b c'' 2 1 = None"
  using chunkContent_never_returns [of 1 2 "''a b c''"]
  by (simp add: isSpace_def)

section \<open>Provider configuration\<close>

text \<open>
  C9 (the API key is not exposed). Whatever API key a configuration holds, a provider
  constructed with it or updated to it answers \<open>getConfig\<close> with the same object; the
  object has exactly the properties \<open>endpoint\<close>, \<open>model\<close> and \<open>customHeaders\<close>, and none
  named \<open>apiKey\<close>.
\<close>

theorem getConfig_hides_apiKey:
  "getConfig (newProvider (cfg\<lparr>apiKey := k\<rparr>)) = getConfig (newProvider cfg) \<and>
   getConfig (updateConfig p (cfg\<lparr>apiKey := k\<rparr>)) = getConfig (updateConfig p cfg) \<and>
   map fst (getConfig p) = [''endpoint'', ''model'', ''customHeaders''] \<and>
   ''apiKey'' \<notin> set (map fst (getConfig p))"
  by (simp add: getConfig_def newProvider_def updateConfig_def)

section \<open>Prompt rendering\<close>

text \<open>
  C10 (placeholders inside the content are substituted). \<open>{content}\<close> is replaced first
  and \<open>{title}\<close> afterwards on the whole intermediate text. With the template
  \<open>{title}: {content}\<close>, the title \<open>Cells\<close> and the content \<open>see {title}\<close>, the rendered
  prompt is \<open>Cells: see Cells\<close>: the placeholder text that came with the content has
  become the title.
\<close>

theorem renderTemplate_substitutes_inside_content:
  "str_includes ''see {title}'' ''{title}'' \<and>
   renderTemplate
     (addTemplate Map.empty
        \<lparr>templateId = ''t'', templateName = ''n'', description = ''d'',
         template = ''{title}: {content}'', variables = [''title'', ''content''],
         templateCardTypes = [OneWay]\<rparr>)
     ''t''
     \<lparr>ctxContent = ''see {title}'', title = ''Cells'', wordCount = 2, ctxMaxCards = None,
      ctxCardTypes = [OneWay], ctxTags = None, ctxMetadata = None\<rparr>
   = Inr ''Cells: see Cells'' \<and>
   \<not> str_includes ''Cells: see Cells'' ''{title}''"
  by (simp add: renderTemplate_def addTemplate_def replaceAll_def Let_def
      showInt_def showNat.simps digitChar_def cardTypeToDisplayName_def trim_def isSpace_def)

section \<open>Line scanner fallback\<close>

lemma jsonMatch_None_iff:
  "jsonMatch s = None \<longleftrightarrow> \<not> (\<exists>u v w. s = u @ ''{'' @ v @ ''}'' @ w)"
proof
  assume n: "jsonMatch s = None"
  show "\<not> (\<exists>u v w. s = u @ ''{'' @ v @ ''}'' @ w)"
  proof
    assume "\<exists>u v w. s = u @ ''{'' @ v @ ''}'' @ w"
    then obtain u v w where s: "s = u @ CHR ''{'' # (v @ CHR ''}'' # w)" by auto
    define r where "r = dropWhile (\<lambda>c. c \<noteq> CHR ''{'') s"
    have "r = dropWhile (\<lambda>c. c \<noteq> CHR ''{'') u @ CHR ''{'' # (v @ CHR ''}'' # w)
          \<or> r = CHR ''{'' # (v @ CHR ''}'' # w)"
      unfolding r_def s by (simp add: dropWhile_append)
    then have "r \<noteq> []" and "CHR ''}'' \<in> set r" by auto
    then have "dropWhile (\<lambda>c. c \<noteq> CHR ''}'') (rev r) \<noteq> []"
      by (simp add: dropWhile_eq_Nil_conv)
    with \<open>r \<noteq> []\<close> have "jsonMatch s \<noteq> None"
      by (simp add: jsonMatch_def Let_def r_def)
    with n show False by simp
  qed
next
  assume a: "\<not> (\<exists>u v w. s = u @ ''{'' @ v @ ''}'' @ w)"
  define r where "r = dropWhile (\<lambda>c. c \<noteq> CHR ''{'') s"
  show "jsonMatch s = None"
  proof (cases "r = []")
    case True
    then show ?thesis by (simp add: jsonMatch_def Let_def r_def)
  next
    case False
    then have "\<not> (hd r \<noteq> CHR ''{'')"
      unfolding r_def by (rule hd_dropWhile)
    then have h: "hd r = CHR ''{''" by simp
    with False obtain r' where r': "r = CHR ''{'' # r'" by (cases r) auto
    have "s = takeWhile (\<lambda>c. c \<noteq> CHR ''{'') s @ r" unfolding r_def by simp
    then have s: "s = takeWhile (\<lambda>c. c \<noteq> CHR ''{'') s @ CHR ''{'' # r'"
      unfolding r' .
    have "CHR ''}'' \<notin> set r'"
    proof
      assume "CHR ''}'' \<in> set r'"
      then obtain v w where "r' = v @ CHR ''}'' # w" by (auto dest: split_list)
      with s have "s = takeWhile (\<lambda>c. c \<noteq> CHR ''{'') s @ ''{'' @ v @ ''}'' @ w" by simp
      with a show False by blast
    qed
    then have "CHR ''}'' \<notin> set r" using r' by simp
    then have "dropWhile (\<lambda>c. c \<noteq> CHR ''}'') (rev r) = []"
      by (auto simp: dropWhile_eq_Nil_conv)
    then show ?thesis by (simp add: jsonMatch_def Let_def r_def)
  qed
qed

lemma truthy_pendingText: "truthy x \<longleftrightarrow> pendingText x \<noteq> []"
  by (simp add: truthy_def pendingText_def split: option.splits)

lemma completeCard_scannedCard:
  "completeCard cur options = scannedCard options (pendingText (pfront cur)) (pendingText (pback cur))"
  by (simp add: completeCard_def scannedCard_def pendingText_def)

lemma stripPrefixCI_question:
  "isQuestionLine t \<Longrightarrow> trim (stripPrefixCI [''q:'', ''question:''] t) = questionText t"
  by (auto simp: isQuestionLine_def stripPrefixCI_def questionText_def)

lemma stripPrefixCI_answer:
  "isAnswerLine t \<Longrightarrow> trim (stripPrefixCI [''a:'', ''answer:''] t) = answerText t"
  by (auto simp: isAnswerLine_def stripPrefixCI_def answerText_def)

lemma scan_refines_spec:
  "foldl (scanLine options) (cs, cur) ls = (cs', cur') \<Longrightarrow>
     cs' @ (if truthy (pfront cur') \<and> truthy (pback cur') then [completeCard cur' options] else [])
     = cs @ lineScanSpec options (pendingText (pfront cur)) (pendingText (pback cur)) (map trim ls)"
proof (induction ls arbitrary: cs cur)
  case Nil
  then show ?case by (auto simp: truthy_pendingText completeCard_scannedCard)
next
  case (Cons l ls)
  obtain cs1 cur1 where step: "scanLine options (cs, cur) l = (cs1, cur1)" by force
  with Cons.prems have "foldl (scanLine options) (cs1, cur1) ls = (cs', cur')" by simp
  then have IH: "cs' @ (if truthy (pfront cur') \<and> truthy (pback cur')
                        then [completeCard cur' options] else [])
     = cs1 @ lineScanSpec options (pendingText (pfront cur1)) (pendingText (pback cur1)) (map trim ls)"
    by (rule Cons.IH)
  show ?case
  proof (cases "isQuestionLine (trim l)")
    case True
    with step have "cs1 = (if truthy (pfront cur) \<and> truthy (pback cur)
                          then cs @ [completeCard cur options] else cs)"
      and "cur1 = \<lparr>pfront = Some (questionText (trim l)), pback = None\<rparr>"
      by (auto simp: scanLine_def Let_def isQuestionLine_def startsWith_def
            stripPrefixCI_question [unfolded isQuestionLine_def])
    with IH True show ?thesis
      by (simp add: truthy_pendingText completeCard_scannedCard pendingText_def)
  next
    case q: False
    show ?thesis
    proof (cases "isAnswerLine (trim l)")
      case True
      with step q have "cs1 = cs" and "cur1 = cur\<lparr>pback := Some (answerText (trim l))\<rparr>"
        by (auto simp: scanLine_def Let_def isQuestionLine_def isAnswerLine_def startsWith_def
              stripPrefixCI_answer [unfolded isAnswerLine_def])
      with IH q True show ?thesis
        by (simp add: pendingText_def)
    next
      case a: False
      show ?thesis
      proof (cases "truthy (pfront cur) \<and> \<not> truthy (pback cur) \<and> trim l \<noteq> []")
        case True
        with step q a have "cs1 = cs" and "cur1 = cur\<lparr>pback := Some (trim l)\<rparr>"
          by (auto simp: scanLine_def Let_def isQuestionLine_def isAnswerLine_def startsWith_def)
        with IH q a True show ?thesis
          by (simp add: truthy_pendingText pendingText_def)
      next
        case False
        with step q a have "cs1 = cs" and "cur1 = cur"
          by (auto simp: scanLine_def Let_def isQuestionLine_def isAnswerLine_def startsWith_def)
        with IH q a False show ?thesis
          by (auto simp: truthy_pendingText)
      qed
    qed
  qed
qed

lemma lineScanSpec_types:
  "c \<in> set (lineScanSpec options f b ls) \<Longrightarrow>
     type c = (case cardTypes options of t # _ \<Rightarrow> if t \<noteq> [] then t else OneWay | [] \<Rightarrow> OneWay)"
  by (induction ls arbitrary: f b) (auto simp: scannedCard_def split: if_splits)

lemma parseAsPlainText_spec:
  "cards (parseAsPlainText cnt options) =
     lineScanSpec options [] []
       (map trim (filter (\<lambda>line. trim line \<noteq> []) (splitOn (CHR 0x0A) cnt)))"
proof -
  let ?ls = "filter (\<lambda>line. trim line \<noteq> []) (splitOn (CHR 0x0A) cnt)"
  obtain cs' cur' where f: "foldl (scanLine options) ([], \<lparr>pfront = None, pback = None\<rparr>) ?ls = (cs', cur')"
    by force
  from scan_refines_spec [OF f] f show ?thesis
    by (auto simp: parseAsPlainText_def Let_def pendingText_def)
qed


lemma parseFlashcardResponse_no_json:
  "\<not> (\<exists>u v w. cnt = u @ ''{'' @ v @ ''}'' @ w) \<Longrightarrow>
     parseFlashcardResponse jsonParse cnt options = parseAsPlainText cnt options"
  using jsonMatch_None_iff [of cnt] by (simp add: parseFlashcardResponse_def)

lemma parseAsPlainText_example:
  "parseAsPlainText (''Q: What is X?'' @ [CHR 0x0A] @ ''A: It is Y.'') options =
     \<lparr>cards = [\<lparr>front = ''What is X?'', back_side = ''It is Y.'',
                 type = (case cardTypes options of
                           t # _ \<Rightarrow> if t \<noteq> [] then t else OneWay | [] \<Rightarrow> OneWay),
                 tags = Some (mergeTags None (optTags options))\<rparr>],
      respMetadata = None\<rparr>"
proof -
  have l1: "toLowerCase ''Q: What is X?'' = ''q: what is x?''" by code_simp
  have l2: "toLowerCase ''A: It is Y.'' = ''a: it is y.''" by code_simp
  have t1: "trim ''Q: What is X?'' = ''Q: What is X?''" by (simp add: trim_def isSpace_def)
  have t2: "trim ''A: It is Y.'' = ''A: It is Y.''" by (simp add: trim_def isSpace_def)
  have t3: "trim '' What is X?'' = ''What is X?''" by (simp add: trim_def isSpace_def)
  have t4: "trim '' It is Y.'' = ''It is Y.''" by (simp add: trim_def isSpace_def)
  show ?thesis
    by (simp add: parseAsPlainText_def scanLine_def Let_def t1 t2 l1 l2 startsWith_def
        stripPrefixCI_def t3 t4 truthy_def completeCard_def)
qed

text \<open>
  C8 (line-scanner fallback). When the model output has no opening brace followed by a
  closing brace, \<open>parseFlashcardResponse\<close> is the line scanner. The cards of the line
  scanner are those of the scanner as the specification words it: a line that starts,
  letter case ignored, with \<open>q:\<close> or \<open>question:\<close> emits a pending card that has both
  front and back and starts a new pending card, a line that starts with \<open>a:\<close> or
  \<open>answer:\<close> sets the back, and a complete pending card is emitted at the end of the
  input. Every emitted card has the first card type of the options (a member of
  \<open>CardType\<close>). The output with the two lines \<open>Q: What is X?\<close> and \<open>A: It is Y.\<close>
  gives exactly one card, with front \<open>What is X?\<close> and back \<open>It is Y.\<close>
\<close>

theorem parseFlashcardResponse_line_scanner:
  "(\<not> (\<exists>u v w. cnt = u @ ''{'' @ v @ ''}'' @ w) \<longrightarrow>
      parseFlashcardResponse jsonParse cnt options = parseAsPlainText cnt options) \<and>
   cards (parseAsPlainText cnt options) =
      lineScanSpec options [] []
        (map trim (filter (\<lambda>line. trim line \<noteq> []) (splitOn (CHR 0x0A) cnt))) \<and>
   (\<forall>t ts c. cardTypes options = t # ts \<and> t \<in> set CardType_values \<and>
              c \<in> set (cards (parseAsPlainText cnt options)) \<longrightarrow> type c = t) \<and>
   parseFlashcardResponse jsonParse (''Q: What is X?'' @ [CHR 0x0A] @ ''A: It is Y.'') options =
     \<lparr>cards = [\<lparr>front = ''What is X?'', back_side = ''It is Y.'',
                 type = (case cardTypes options of
                           t # _ \<Rightarrow> if t \<noteq> [] then t else OneWay | [] \<Rightarrow> OneWay),
                 tags = Some (mergeTags None (optTags options))\<rparr>],
      respMetadata = None\<rparr>"
proof (intro conjI)
  show "\<not> (\<exists>u v w. cnt = u @ ''{'' @ v @ ''}'' @ w) \<longrightarrow>
      parseFlashcardResponse jsonParse cnt options = parseAsPlainText cnt options"
    by (simp add: parseFlashcardResponse_no_json)
  show "cards (parseAsPlainText cnt options) =
      lineScanSpec options [] []
        (map trim (filter (\<lambda>line. trim line \<noteq> []) (splitOn (CHR 0x0A) cnt)))"
    by (rule parseAsPlainText_spec)
  show "\<forall>t ts c. cardTypes options = t # ts \<and> t \<in> set CardType_values \<and>
              c \<in> set (cards (parseAsPlainText cnt options)) \<longrightarrow> type c = t"
  proof (intro allI impI)
    fix t ts c
    assume a: "cardTypes options = t # ts \<and> t \<in> set CardType_values \<and>
              c \<in> set (cards (parseAsPlainText cnt options))"
    then have "t \<noteq> []" by (auto simp: CardType_values_def CardType_defs)
    moreover from a have "type c = (case cardTypes options of
                           t # _ \<Rightarrow> if t \<noteq> [] then t else OneWay | [] \<Rightarrow> OneWay)"
      unfolding parseAsPlainText_spec by (auto dest: lineScanSpec_types)
    ultimately show "type c = t" using a by simp
  qed
  have "jsonMatch (''Q: What is X?'' @ [CHR 0x0A] @ ''A: It is Y.'') = None"
    by (simp add: jsonMatch_def)
  then show "parseFlashcardResponse jsonParse (''Q: What is X?'' @ [CHR 0x0A] @ ''A: It is Y.'') options =
     \<lparr>cards = [\<lparr>front = ''What is X?'', back_side = ''It is Y.'',
                 type = (case cardTypes options of
                           t # _ \<Rightarrow> if t \<noteq> [] then t else OneWay | [] \<Rightarrow> OneWay),
                 tags = Some (mergeTags None (optTags options))\<rparr>],
      respMetadata = None\<rparr>"
    using parseAsPlainText_example [of options] by (simp add: parseFlashcardResponse_def)
qed

text \<open>The theorem at the two-line output with \<open>cardTypes = [Bidirectional]\<close>.\<close>

theorem parseFlashcardResponse_line_scanner_witness:
  "parseFlashcardResponse (\<lambda>s. None) (''Q: What is X?'' @ [CHR 0x0A] @ ''A: It is Y.'')
     \<lparr>maxCards = None, cardTypes = [Bidirectional], customPrompt = None, optTags = None\<rparr>
   = \<lparr>cards = [\<lparr>front = ''What is X?'', back_side = ''It is Y.'', type = Bidirectional,
                 tags = Some []\<rparr>],
      respMetadata = None\<rparr> \<and>
   map type (cards (parseAsPlainText (''Q: What is X?'' @ [CHR 0x0A] @ ''A: It is Y.'')
     \<lparr>maxCards = None, cardTypes = [Bidirectional], customPrompt = None, optTags = None\<rparr>))
   = [Bidirectional]"
proof -
  let ?c = "''Q: What is X?'' @ [CHR 0x0A] @ ''A: It is Y.''"
  let ?o = "\<lparr>maxCards = None, cardTypes = [Bidirectional], customPrompt = None, optTags = None\<rparr>"
  note th = parseFlashcardResponse_line_scanner [of ?c "\<lambda>s. None" ?o]
  have "jsonMatch ?c = None" by (simp add: jsonMatch_def)
  then have nj: "\<not> (\<exists>u v w. ?c = u @ ''{'' @ v @ ''}'' @ w)" by (rule iffD1 [OF jsonMatch_None_iff])
  with th have e: "parseFlashcardResponse (\<lambda>s. None) ?c ?o = parseAsPlainText ?c ?o" by blast
  from th have r: "parseFlashcardResponse (\<lambda>s. None) ?c ?o =
     \<lparr>cards = [\<lparr>front = ''What is X?'', back_side = ''It is Y.'', type = Bidirectional,
                 tags = Some []\<rparr>], respMetadata = None\<rparr>"
    by (simp add: mergeTags_def CardType_defs)
  from e [symmetric] r have "parseAsPlainText ?c ?o =
     \<lparr>cards = [\<lparr>front = ''What is X?'', back_side = ''It is Y.'', type = Bidirectional,
                 tags = Some []\<rparr>], respMetadata = None\<rparr>"
    by (rule trans)
  then have "map type (cards (parseAsPlainText ?c ?o)) = [Bidirectional]"
    by (simp only: FlashcardResponse.simps list.map RawFlashcard.simps)
  with r show ?thesis by simp
qed

end
